theory Spec2Isabelle
  imports Main
begin

section \<open>JavaScript objects: members that may be omitted\<close>

text \<open>
  A member of a JavaScript object is either not there at all, or there with a value that
  may be \<open>undefined\<close>. \<open>None\<close> stands for \<open>undefined\<close> throughout.
  A number is modelled by the integer it holds; the arithmetic on numbers is that of
  IEEE doubles, given with \<open>slice\<close> below.
\<close>

datatype 'a member = Absent | Present "'a option"

text \<open>Reading \<open>obj.key\<close>: an omitted member and one holding \<open>undefined\<close> read alike.\<close>

fun rd :: "'a member \<Rightarrow> 'a option" where
  "rd Absent = None"
| "rd (Present v) = v"

text \<open>One key of the object spread \<open>{ ...a, ...b }\<close>: a key that \<open>b\<close> holds wins.\<close>

fun spread_member :: "'a member \<Rightarrow> 'a member \<Rightarrow> 'a member" where
  "spread_member a Absent = a"
| "spread_member a (Present v) = Present v"

text \<open>The nullish coalescing operator \<open>a ?? b\<close>.\<close>

fun nullish :: "'a option \<Rightarrow> 'a \<Rightarrow> 'a" where
  "nullish None d = d"
| "nullish (Some v) d = v"

section \<open>Options, transport client and object reference\<close>

text \<open>
  Modelled from the spec: the declaration of \<open>R2Options\<close> (lib/types.ts) is not part of
  the sources at hand; the record holds the members the code reads from it.
\<close>

record R2Options =
  accessKeyId :: "string member"
  secretAccessKey :: "string member"
  sessionToken :: "string member"
  region :: "string member"
  bucket :: "string member"
  endpoint :: "string member"
  virtualHostedStyle :: "bool member"
  type :: "string member"
  acl :: "string member"
  storageClass :: "string member"

definition empty_options :: R2Options where
  "empty_options = \<lparr> accessKeyId = Absent, secretAccessKey = Absent, sessionToken = Absent,
     region = Absent, bucket = Absent, endpoint = Absent, virtualHostedStyle = Absent,
     type = Absent, acl = Absent, storageClass = Absent \<rparr>"

text \<open>\<open>{ ...a, ...b }\<close> where either operand may be \<open>undefined\<close>.\<close>

definition spread_some :: "R2Options \<Rightarrow> R2Options \<Rightarrow> R2Options" where
  "spread_some a b = \<lparr>
     accessKeyId = spread_member (accessKeyId a) (accessKeyId b),
     secretAccessKey = spread_member (secretAccessKey a) (secretAccessKey b),
     sessionToken = spread_member (sessionToken a) (sessionToken b),
     region = spread_member (region a) (region b),
     bucket = spread_member (bucket a) (bucket b),
     endpoint = spread_member (endpoint a) (endpoint b),
     virtualHostedStyle = spread_member (virtualHostedStyle a) (virtualHostedStyle b),
     type = spread_member (type a) (type b),
     acl = spread_member (acl a) (acl b),
     storageClass = spread_member (storageClass a) (storageClass b) \<rparr>"

fun or_empty :: "R2Options option \<Rightarrow> R2Options" where
  "or_empty None = empty_options"
| "or_empty (Some opts) = opts"

definition spread_options :: "R2Options option \<Rightarrow> R2Options option \<Rightarrow> R2Options" where
  "spread_options a b = spread_some (or_empty a) (or_empty b)"

text \<open>Optional chaining \<open>options?.key\<close>.\<close>

fun opt_rd :: "('r \<Rightarrow> 'a member) \<Rightarrow> 'r option \<Rightarrow> 'a option" where
  "opt_rd key None = None"
| "opt_rd key (Some opts) = rd (key opts)"

record credentials =
  cred_accessKeyId :: string
  cred_secretAccessKey :: string
  cred_sessionToken :: "string option"

record S3Client =
  cfg_endpoint :: "string option"
  cfg_region :: string
  forcePathStyle :: bool
  cfg_credentials :: credentials

text \<open>The process environment, as far as \<open>createClient\<close> reads it.\<close>

record process_env =
  R2_ENDPOINT :: "string option"

definition createClient :: "process_env \<Rightarrow> R2Options option \<Rightarrow> S3Client" where
  "createClient env opts = \<lparr>
     cfg_endpoint = (case opt_rd endpoint opts of None \<Rightarrow> R2_ENDPOINT env | Some e \<Rightarrow> Some e),
     cfg_region = ''auto'',
     forcePathStyle = nullish (opt_rd virtualHostedStyle opts) True,
     cfg_credentials = \<lparr>
       cred_accessKeyId = nullish (opt_rd accessKeyId opts) '''',
       cred_secretAccessKey = nullish (opt_rd secretAccessKey opts) '''',
       cred_sessionToken = opt_rd sessionToken opts \<rparr> \<rparr>"

record byte_range =
  range_begin :: "int member"
  range_end :: "int member"

record R2FileReader =
  name :: string
  p_options :: R2Options
  p_bucket :: string
  p_client :: S3Client
  p_range :: "byte_range option"

text \<open>The constructor \<open>new R2FileReader(path, options, range)\<close>.\<close>

definition new_R2FileReader ::
  "process_env \<Rightarrow> string \<Rightarrow> R2Options option \<Rightarrow> byte_range option \<Rightarrow> R2FileReader" where
  "new_R2FileReader env path opts rng = \<lparr>
     name = path,
     p_options = or_empty opts,
     p_bucket = nullish (opt_rd bucket opts) '''',
     p_client = createClient env opts,
     p_range = rng \<rparr>"

section \<open>Range composition: \<open>R2FileReader.slice\<close>\<close>

text \<open>An argument of \<open>slice\<close> as \<open>typeof\<close> sees it; an omitted argument is \<open>None\<close>.\<close>

datatype js_arg = Num int | Str string

text \<open>
  The locals \<open>begin\<close>, \<open>end\<close> and \<open>type\<close> after the arguments have been told apart
  by their types.
\<close>

fun slice_args ::
  "js_arg option \<Rightarrow> js_arg option \<Rightarrow> string option \<Rightarrow> int option \<times> int option \<times> string option" where
  "slice_args (Some (Str s)) endOrContentType contentType = (None, None, Some s)"
| "slice_args (Some (Num b)) (Some (Str s)) contentType = (Some b, None, Some s)"
| "slice_args (Some (Num b)) (Some (Num e)) contentType = (Some b, Some e, contentType)"
| "slice_args (Some (Num b)) None contentType = (Some b, None, None)"
| "slice_args None endOrContentType contentType = (None, None, None)"

text \<open>
  The numbers of a range are doubles. The model covers the doubles that hold an integer,
  and writes the integer \<open>2 ^ 1024\<close>, which no finite double holds, for \<open>Infinity\<close>.
  A sum of two of them is the exact sum rounded to 53 significant bits, ties to the even
  significand, and \<open>Infinity\<close> from \<open>2 ^ 1024 - 2 ^ 970\<close> on; \<open>Infinity\<close> plus a
  finite number is \<open>Infinity\<close>. Left out: \<open>NaN\<close> (which finite arguments never
  produce), fractions and the sign of zero.
\<close>

text \<open>The number of binary digits of a natural number.\<close>

fun bitlen :: "nat \<Rightarrow> nat" where
  "bitlen n = (if n = 0 then 0 else Suc (bitlen (n div 2)))"

declare bitlen.simps [simp del]

text \<open>The distance between neighbouring doubles at \<open>n\<close>: 1 below \<open>2 ^ 53\<close>.\<close>

definition ulp :: "nat \<Rightarrow> nat" where
  "ulp n = 2 ^ (bitlen n - 53)"

text \<open>Round to the nearest multiple of \<open>ulp n\<close>, a tie to the even multiple.\<close>

definition round_even :: "nat \<Rightarrow> nat" where
  "round_even n =
     (let u = ulp n; q = n div u; r = n mod u
      in if 2 * r < u \<or> (2 * r = u \<and> even q) then q * u else (q + 1) * u)"

definition nearest :: "int \<Rightarrow> int" where
  "nearest x = (if x < 0 then - int (round_even (nat (- x))) else int (round_even (nat x)))"

definition Infinity :: int where
  "Infinity = 2 ^ 1024"

definition to_double :: "int \<Rightarrow> int" where
  "to_double x =
     (if Infinity \<le> nearest x then Infinity
      else if nearest x \<le> - Infinity then - Infinity
      else nearest x)"

text \<open>The sum \<open>x + y\<close> of two numbers, as JavaScript computes it.\<close>

definition js_add :: "int \<Rightarrow> int \<Rightarrow> int" where
  "js_add x y = (if x = Infinity \<or> x = - Infinity then x else to_double (x + y))"


text \<open>\<open>this.#range?.begin ?? 0\<close> and \<open>this.#range?.end\<close>.\<close>

definition existingBegin :: "byte_range option \<Rightarrow> int" where
  "existingBegin rng = nullish (case rng of None \<Rightarrow> None | Some r \<Rightarrow> rd (range_begin r)) 0"

definition existingEnd :: "byte_range option \<Rightarrow> int option" where
  "existingEnd rng = (case rng of None \<Rightarrow> None | Some r \<Rightarrow> rd (range_end r))"

text \<open>
  The object \<open>newRange\<close>: it stays \<open>{}\<close> unless \<open>begin\<close> or \<open>end\<close> is given, and else
  gets both members (\<open>end\<close> possibly holding \<open>undefined\<close>).
\<close>

definition newRange :: "byte_range option \<Rightarrow> int option \<Rightarrow> int option \<Rightarrow> byte_range" where
  "newRange rng b e =
     (if b \<noteq> None \<or> e \<noteq> None then
        \<lparr> range_begin =
            (case b of
               Some b' \<Rightarrow> Present (Some (js_add (existingBegin rng) b'))
             | None \<Rightarrow> Present (Some (existingBegin rng))),
          range_end =
            (case e of
               Some e' \<Rightarrow>
                 (case existingEnd rng of
                    Some e0 \<Rightarrow> Present (Some (min (js_add (existingBegin rng) e') e0))
                  | None \<Rightarrow> Present (Some (js_add (existingBegin rng) e')))
             | None \<Rightarrow> Present (existingEnd rng)) \<rparr>
      else \<lparr> range_begin = Absent, range_end = Absent \<rparr>)"

text \<open>\<open>Object.keys(newRange).length > 0\<close>.\<close>

definition has_keys :: "byte_range \<Rightarrow> bool" where
  "has_keys r = (range_begin r \<noteq> Absent \<or> range_end r \<noteq> Absent)"

definition slice ::
  "process_env \<Rightarrow> R2FileReader \<Rightarrow> js_arg option \<Rightarrow> js_arg option \<Rightarrow> string option
     \<Rightarrow> R2FileReader" where
  "slice env this beginOrContentType endOrContentType contentType =
     (case slice_args beginOrContentType endOrContentType contentType of
        (b, e, t) \<Rightarrow>
          new_R2FileReader env (name this)
            (Some ((p_options this)\<lparr> type := Present t \<rparr>))
            (if has_keys (newRange (p_range this) b e)
             then Some (newRange (p_range this) b e)
             else p_range this))"

section \<open>The client facade: \<open>Client.file\<close>\<close>

record Client =
  c_options :: "R2Options option"

definition Client_file ::
  "process_env \<Rightarrow> Client \<Rightarrow> string \<Rightarrow> R2Options option \<Rightarrow> R2FileReader" where
  "Client_file env this path opts =
     new_R2FileReader env path (Some (spread_options (c_options this) opts)) None"

definition Client_file_static ::
  "process_env \<Rightarrow> string \<Rightarrow> R2Options option \<Rightarrow> R2FileReader" where
  "Client_file_static env path opts = new_R2FileReader env path opts None"










section \<open>The transport: commands, responses and the world they are sent to\<close>

text \<open>
  Values that can be thrown: an instance of \<open>Error\<close> with its \<open>name\<close> and \<open>message\<close>
  (the member \<open>name\<close> is inherited from \<open>Error.prototype\<close>, so \<open>"name" in error\<close> holds
  for each of them), or any other value.
\<close>

datatype thrown = Error string string | Thrown_value string

type_synonym bytes = "nat list"

text \<open>
  The inputs of the SDK's commands, with the members this repository sets. All commands
  share \<open>Bucket\<close>; the single-object ones share \<open>Key\<close>.
\<close>

record bucket_input =
  Bucket :: "string option"

record object_input = bucket_input +
  Key :: string

record GetObjectInput = object_input +
  Range' :: "string option"

record PutObjectInput = object_input +
  Body :: "bytes option"
  ContentType :: "string option"
  ACL :: "string option"
  StorageClass :: "string option"

record ListObjectsV2Input = bucket_input +
  Prefix :: "string option"
  ContinuationToken :: "string option"
  Delimiter :: "string option"
  MaxKeys :: "int option"
  FetchOwner :: "bool option"
  EncodingType :: "string option"
  StartAfter :: "string option"

datatype command =
    GetObjectCommand GetObjectInput
  | HeadObjectCommand object_input
  | PutObjectCommand PutObjectInput
  | DeleteObjectCommand object_input
  | ListObjectsV2Command ListObjectsV2Input

text \<open>
  The body of a GET response is an opaque SDK object; it is given by what its three
  transformations return. A web stream yields its chunks and then ends or fails.
\<close>

record web_stream =
  ws_chunks :: "bytes list"
  ws_failure :: "thrown option"

record Uint8Array =
  buffer :: bytes
  byteOffset :: nat
  byteLength :: nat
  is_shared :: bool

record sdk_body =
  transformToWebStream :: web_stream
  transformToByteArray :: "thrown + Uint8Array"
  transformToString :: "thrown + string"

record GetObjectOutput =
  get_Body :: "sdk_body option"

text \<open>A \<open>Date\<close> is its time value in milliseconds (a valid date).\<close>

type_synonym date = int

record HeadObjectOutput =
  head_ContentType :: "string option"
  head_ETag :: "string option"
  head_ContentLength :: "int option"
  head_LastModified :: "date option"

text \<open>The raw listing response (\<open>ListObjectsV2CommandOutput\<close>), members prefixed \<open>raw_\<close>.\<close>

record raw_owner =
  raw_ID :: "string option"
  raw_DisplayName :: "string option"

record raw_restore_status =
  raw_IsRestoreInProgress :: "bool option"
  raw_RestoreExpiryDate :: "date option"

record raw_object =
  raw_Key :: "string option"
  raw_ETag :: "string option"
  raw_ChecksumAlgorithm :: "string list option"
  raw_ChecksumType :: "string option"
  raw_LastModified :: "date option"
  raw_Owner :: "raw_owner option"
  raw_RestoreStatus :: "raw_restore_status option"
  raw_Size :: "int option"
  raw_StorageClass :: "string option"

record raw_common_prefix =
  raw_cp_Prefix :: "string option"

record ListObjectsV2Output =
  raw_Name :: "string option"
  raw_CommonPrefixes :: "raw_common_prefix list option"
  raw_Delimiter :: "string option"
  raw_ContinuationToken :: "string option"
  raw_IsTruncated :: "bool option"
  raw_EncodingType :: "string option"
  raw_StartAfter :: "string option"
  raw_MaxKeys :: "int option"
  raw_KeyCount :: "int option"
  raw_Prefix :: "string option"
  raw_NextContinuationToken :: "string option"
  raw_Contents :: "raw_object list option"

text \<open>What has happened so far: commands sent, URLs signed, values logged.\<close>

datatype event =
    Sent S3Client command
  | Signed S3Client command int
  | Console_log thrown

text \<open>
  The world outside: how the backend answers a command and how the presigner answers,
  each given the history so far (so the backend may have state), the clock, and the
  history itself.
\<close>

record world =
  on_GetObject :: "event list \<Rightarrow> S3Client \<Rightarrow> GetObjectInput \<Rightarrow> thrown + GetObjectOutput"
  on_HeadObject :: "event list \<Rightarrow> S3Client \<Rightarrow> object_input \<Rightarrow> thrown + HeadObjectOutput"
  on_PutObject :: "event list \<Rightarrow> S3Client \<Rightarrow> PutObjectInput \<Rightarrow> thrown + unit"
  on_DeleteObject :: "event list \<Rightarrow> S3Client \<Rightarrow> object_input \<Rightarrow> thrown + unit"
  on_ListObjectsV2 ::
    "event list \<Rightarrow> S3Client \<Rightarrow> ListObjectsV2Input \<Rightarrow> thrown + ListObjectsV2Output"
  on_getSignedUrl :: "event list \<Rightarrow> S3Client \<Rightarrow> command \<Rightarrow> int \<Rightarrow> thrown + string"
  clock :: date
  history :: "event list"

definition happened :: "event \<Rightarrow> world \<Rightarrow> world" where
  "happened ev w = w\<lparr> history := history w @ [ev] \<rparr>"

text \<open>\<open>client.send(new XCommand(input))\<close>, one function for each command.\<close>

definition send_GetObject ::
  "world \<Rightarrow> S3Client \<Rightarrow> GetObjectInput \<Rightarrow> (thrown + GetObjectOutput) \<times> world" where
  "send_GetObject w cl input =
     (on_GetObject w (history w) cl input, happened (Sent cl (GetObjectCommand input)) w)"

definition send_HeadObject ::
  "world \<Rightarrow> S3Client \<Rightarrow> object_input \<Rightarrow> (thrown + HeadObjectOutput) \<times> world" where
  "send_HeadObject w cl input =
     (on_HeadObject w (history w) cl input, happened (Sent cl (HeadObjectCommand input)) w)"

definition send_PutObject ::
  "world \<Rightarrow> S3Client \<Rightarrow> PutObjectInput \<Rightarrow> (thrown + unit) \<times> world" where
  "send_PutObject w cl input =
     (on_PutObject w (history w) cl input, happened (Sent cl (PutObjectCommand input)) w)"

definition send_DeleteObject ::
  "world \<Rightarrow> S3Client \<Rightarrow> object_input \<Rightarrow> (thrown + unit) \<times> world" where
  "send_DeleteObject w cl input =
     (on_DeleteObject w (history w) cl input, happened (Sent cl (DeleteObjectCommand input)) w)"

definition send_ListObjectsV2 ::
  "world \<Rightarrow> S3Client \<Rightarrow> ListObjectsV2Input \<Rightarrow> (thrown + ListObjectsV2Output) \<times> world" where
  "send_ListObjectsV2 w cl input =
     (on_ListObjectsV2 w (history w) cl input, happened (Sent cl (ListObjectsV2Command input)) w)"

definition getSignedUrl ::
  "world \<Rightarrow> S3Client \<Rightarrow> command \<Rightarrow> int \<Rightarrow> (thrown + string) \<times> world" where
  "getSignedUrl w cl cmd expires =
     (on_getSignedUrl w (history w) cl cmd expires, happened (Signed cl cmd expires) w)"


section \<open>Operations of \<open>R2FileReader\<close>\<close>

text \<open>Truthiness of a string or number that may be \<open>undefined\<close>, as \<open>||\<close> and \<open>if\<close> see it.\<close>

fun truthy :: "string option \<Rightarrow> bool" where
  "truthy None = False"
| "truthy (Some s) = (s \<noteq> [])"

fun truthy_num :: "int option \<Rightarrow> bool" where
  "truthy_num None = False"
| "truthy_num (Some n) = (n \<noteq> 0)"

text \<open>\<open>a ?? b\<close> and \<open>a || b\<close> where \<open>b\<close> may be \<open>undefined\<close> too.\<close>

fun nullish_opt :: "'a option \<Rightarrow> 'a option \<Rightarrow> 'a option" where
  "nullish_opt None b = b"
| "nullish_opt (Some v) b = Some v"

definition or_str :: "string option \<Rightarrow> string option \<Rightarrow> string option" where
  "or_str a b = (if truthy a then a else b)"

text \<open>The input \<open>{ Bucket: this.#bucket, Key: this.name }\<close>.\<close>

definition bucket_and_key :: "R2FileReader \<Rightarrow> object_input" where
  "bucket_and_key this = \<lparr> Bucket = Some (p_bucket this), Key = name this \<rparr>"

definition get_input :: "R2FileReader \<Rightarrow> GetObjectInput" where
  "get_input this = \<lparr> Bucket = Some (p_bucket this), Key = name this, Range' = None \<rparr>"

definition R2FileReader_exists :: "world \<Rightarrow> R2FileReader \<Rightarrow> (thrown + bool) \<times> world" where
  "R2FileReader_exists w this =
     (case send_HeadObject w (p_client this) (bucket_and_key this) of
        (Inr response, w') \<Rightarrow> (Inr True, w')
      | (Inl error, w') \<Rightarrow>
          (case error of
             Error nm msg \<Rightarrow>
               if nm = ''NotFound'' \<or> nm = ''NoSuchKey'' then (Inr False, w')
               else (Inl error, w')
           | Thrown_value v \<Rightarrow> (Inl error, w')))"

text \<open>
  A \<open>ReadableStream\<close> built by \<open>start(controller)\<close> is recorded by what its controller is
  told, in order: the chunks passed to \<open>controller.enqueue\<close>, then \<open>controller.close()\<close> or
  \<open>controller.error(error)\<close>. This is the producer's side only: it does not say which of
  the chunks a consumer gets to read.
\<close>

datatype stream_end = Closed | Errored thrown

record ReadableStream =
  enqueued :: "bytes list"
  ending :: stream_end

text \<open>
  What a consumer reads depends on how far it had read when the controller was ended.
  \<open>controller.close()\<close> leaves the queued chunks to be read before the stream is done;
  \<open>controller.error(error)\<close> discards the chunks not yet read, and every later read
  rejects with the error. For a consumer that had read \<open>k\<close> chunks by then:
\<close>

datatype read_result = Chunk bytes | Done | Rejected thrown

definition consumer_sees :: "nat \<Rightarrow> ReadableStream \<Rightarrow> read_result list" where
  "consumer_sees k s =
     map Chunk (take k (enqueued s))
     @ (case ending s of
          Closed \<Rightarrow> map Chunk (drop k (enqueued s)) @ [Done]
        | Errored error \<Rightarrow> [Rejected error])"

text \<open>
  The loop \<open>while (true) { read; if (done) break; enqueue }\<close> over the body's reader,
  followed by \<open>controller.close()\<close>, or by \<open>controller.error\<close> when a read rejects.
\<close>

fun pump :: "bytes list \<Rightarrow> thrown option \<Rightarrow> bytes list \<Rightarrow> ReadableStream" where
  "pump [] None acc = \<lparr> enqueued = acc, ending = Closed \<rparr>"
| "pump [] (Some error) acc = \<lparr> enqueued = acc, ending = Errored error \<rparr>"
| "pump (chunk # rest) failure acc = pump rest failure (acc @ [chunk])"

definition R2FileReader_stream :: "world \<Rightarrow> R2FileReader \<Rightarrow> ReadableStream \<times> world" where
  "R2FileReader_stream w this =
     (case send_GetObject w (p_client this) (get_input this) of
        (Inl error, w') \<Rightarrow> (\<lparr> enqueued = [], ending = Errored error \<rparr>, w')
      | (Inr response, w') \<Rightarrow>
          (case get_Body response of
             None \<Rightarrow> (\<lparr> enqueued = [], ending = Closed \<rparr>, w')
           | Some body \<Rightarrow>
               (pump (ws_chunks (transformToWebStream body))
                  (ws_failure (transformToWebStream body)) [], w')))"

text \<open>The bytes a view shows of its buffer, and \<open>buffer.slice(from, to)\<close>.\<close>

definition view_bytes :: "Uint8Array \<Rightarrow> bytes" where
  "view_bytes u = take (byteLength u) (drop (byteOffset u) (buffer u))"

definition buffer_slice :: "bytes \<Rightarrow> nat \<Rightarrow> nat \<Rightarrow> bytes" where
  "buffer_slice b from to = take (to - from) (drop from b)"

definition R2FileReader_arrayBuffer :: "world \<Rightarrow> R2FileReader \<Rightarrow> (thrown + bytes) \<times> world" where
  "R2FileReader_arrayBuffer w this =
     (case send_GetObject w (p_client this) (get_input this) of
        (Inl error, w') \<Rightarrow> (Inl error, w')
      | (Inr response, w') \<Rightarrow>
          (case get_Body response of
             None \<Rightarrow> (Inr [], w')
           | Some body \<Rightarrow>
               (case transformToByteArray body of
                  Inl error \<Rightarrow> (Inl error, w')
                | Inr uint8Array \<Rightarrow>
                    if is_shared uint8Array then (Inr (view_bytes uint8Array), w')
                    else (Inr (buffer_slice (buffer uint8Array) (byteOffset uint8Array)
                                 (byteOffset uint8Array + byteLength uint8Array)), w'))))"

definition R2FileReader_text :: "world \<Rightarrow> R2FileReader \<Rightarrow> (thrown + string) \<times> world" where
  "R2FileReader_text w this =
     (case send_GetObject w (p_client this) (get_input this) of
        (Inl error, w') \<Rightarrow> (Inl error, w')
      | (Inr response, w') \<Rightarrow>
          (case get_Body response of
             None \<Rightarrow> (Inr [], w')
           | Some body \<Rightarrow> (transformToString body, w')))"

text \<open>\<open>json()\<close>; \<open>JSON.parse\<close> is a parameter.\<close>

definition R2FileReader_json ::
  "(string \<Rightarrow> thrown + 'j) \<Rightarrow> world \<Rightarrow> R2FileReader \<Rightarrow> (thrown + 'j) \<times> world" where
  "R2FileReader_json JSON_parse w this =
     (case R2FileReader_text w this of
        (Inl error, w') \<Rightarrow> (Inl error, w')
      | (Inr txt, w') \<Rightarrow> (JSON_parse txt, w'))"

definition R2FileReader_bytes :: "world \<Rightarrow> R2FileReader \<Rightarrow> (thrown + bytes) \<times> world" where
  "R2FileReader_bytes w this =
     (case send_GetObject w (p_client this) (get_input this) of
        (Inl error, w') \<Rightarrow> (Inl error, w')
      | (Inr response, w') \<Rightarrow>
          (case get_Body response of
             None \<Rightarrow> (Inr [], w')
           | Some body \<Rightarrow>
               (case transformToByteArray body of
                  Inl error \<Rightarrow> (Inl error, w')
                | Inr uint8Array \<Rightarrow>
                    if is_shared uint8Array then (Inr (view_bytes uint8Array), w')
                    else (Inr (view_bytes
                                 \<lparr> buffer = buffer uint8Array,
                                   byteOffset = byteOffset uint8Array,
                                   byteLength = byteLength uint8Array,
                                   is_shared = False \<rparr>), w'))))"

text \<open>
  The payloads of \<open>write\<close>, as its \<open>typeof\<close> and \<open>instanceof\<close> tests tell them apart. A
  string is given by its UTF-8 bytes; a request, a response and a blob by what their
  \<open>arrayBuffer()\<close> returns and their declared content type (\<open>headers.get("content-type")\<close>
  is \<open>null\<close> when there is none; \<open>Blob.type\<close> is the empty string then).
\<close>

record http_payload =
  http_arrayBuffer :: "thrown + bytes"
  http_content_type :: "string option"

record blob_payload =
  blob_arrayBuffer :: "thrown + bytes"
  blob_type :: string

datatype payload =
    String_data string
  | ArrayBuffer_data bytes
  | SharedArrayBuffer_data bytes
  | View_data Uint8Array
  | Request_data http_payload
  | Response_data http_payload
  | Blob_data blob_payload
  | Other_data

definition TextEncoder_encode :: "string \<Rightarrow> bytes" where
  "TextEncoder_encode s = map of_char s"

text \<open>
  The first half of \<open>write\<close>: the chain of tests that yields \<open>body\<close> and the final
  \<open>contentType\<close>, from the payload and the initial
  \<open>contentType = options?.type ?? this.#options?.type\<close>.
\<close>

fun write_body :: "payload \<Rightarrow> string option \<Rightarrow> thrown + (bytes \<times> string option)" where
  "write_body (String_data s) contentType = Inr (TextEncoder_encode s, contentType)"
| "write_body (ArrayBuffer_data b) contentType = Inr (b, contentType)"
| "write_body (SharedArrayBuffer_data b) contentType = Inr (b, contentType)"
| "write_body (View_data v) contentType = Inr (view_bytes v, contentType)"
| "write_body (Request_data d) contentType =
     (case http_arrayBuffer d of
        Inl error \<Rightarrow> Inl error
      | Inr arrayBuffer \<Rightarrow>
          Inr (arrayBuffer, or_str (or_str contentType (http_content_type d)) None))"
| "write_body (Response_data d) contentType =
     (case http_arrayBuffer d of
        Inl error \<Rightarrow> Inl error
      | Inr arrayBuffer \<Rightarrow>
          Inr (arrayBuffer, or_str (or_str contentType (http_content_type d)) None))"
| "write_body (Blob_data d) contentType =
     (case blob_arrayBuffer d of
        Inl error \<Rightarrow> Inl error
      | Inr arrayBuffer \<Rightarrow>
          Inr (arrayBuffer, or_str (or_str contentType (Some (blob_type d))) None))"
| "write_body Other_data contentType = Inl (Error ''Error'' ''Unsupported data type'')"

definition R2FileReader_write ::
  "world \<Rightarrow> R2FileReader \<Rightarrow> payload \<Rightarrow> R2Options option \<Rightarrow> (thrown + nat) \<times> world" where
  "R2FileReader_write w this data opts =
     (case write_body data (nullish_opt (opt_rd type opts) (rd (type (p_options this)))) of
        Inl error \<Rightarrow> (Inl error, w)
      | Inr (body, contentType) \<Rightarrow>
          (case send_PutObject w (p_client this)
                  \<lparr> Bucket = Some (p_bucket this), Key = name this, Body = Some body,
                    ContentType = contentType, ACL = opt_rd acl opts,
                    StorageClass = opt_rd storageClass opts \<rparr> of
             (Inl error, w') \<Rightarrow> (Inl error, w')
           | (Inr response, w') \<Rightarrow> (Inr (length body), w')))"

text \<open>
  Modelled from the spec: the declaration of \<open>R2FilePresignOptions\<close> (lib/types.ts) is not
  part of the sources at hand; it is \<open>R2Options\<close> (the facade passes it on as such) with
  the members \<open>method\<close> and \<open>expiresIn\<close> that \<open>presign\<close> reads.
\<close>

record R2FilePresignOptions = R2Options +
  method' :: "string member"
  expiresIn :: "int member"

definition R2FileReader_presign ::
  "world \<Rightarrow> R2FileReader \<Rightarrow> R2FilePresignOptions option \<Rightarrow> (thrown + string) \<times> world" where
  "R2FileReader_presign w this opts =
     (let method = (if truthy (opt_rd method' opts) then the (opt_rd method' opts) else ''GET'');
          commandToSign =
            (if method = ''GET'' then Inr (GetObjectCommand (get_input this))
             else if method = ''PUT'' then
               Inr (PutObjectCommand
                 \<lparr> Bucket = Some (p_bucket this), Key = name this, Body = None,
                   ContentType = nullish_opt (opt_rd type opts) (rd (type (p_options this))),
                   ACL = opt_rd acl opts, StorageClass = None \<rparr>)
             else if method = ''DELETE'' then Inr (DeleteObjectCommand (bucket_and_key this))
             else if method = ''HEAD'' then Inr (HeadObjectCommand (bucket_and_key this))
             else Inl (Error ''Error'' (''Unsupported method: '' @ method)))
      in case commandToSign of
           Inl error \<Rightarrow> (Inl error, w)
         | Inr cmd \<Rightarrow>
             getSignedUrl w (p_client this) cmd
               (if truthy_num (opt_rd expiresIn opts) then the (opt_rd expiresIn opts) else 900))"

definition R2FileReader_delete :: "world \<Rightarrow> R2FileReader \<Rightarrow> (thrown + unit) \<times> world" where
  "R2FileReader_delete w this =
     (case send_DeleteObject w (p_client this) (bucket_and_key this) of
        (Inl error, w') \<Rightarrow> (Inl error, w')
      | (Inr response, w') \<Rightarrow> (Inr (), w'))"

record R2Stats =
  stat_type :: string
  stat_etag :: string
  stat_size :: int
  stat_lastModified :: date

text \<open>The constructor of \<open>S3Stat\<close>; \<open>new Date()\<close> reads the clock.\<close>

definition new_S3Stat ::
  "world \<Rightarrow> string option \<Rightarrow> string option \<Rightarrow> int option \<Rightarrow> date option \<Rightarrow> R2Stats" where
  "new_S3Stat w ty et sz lm =
     \<lparr> stat_type = nullish ty [], stat_etag = nullish et [], stat_size = nullish sz 0,
       stat_lastModified = nullish lm (clock w) \<rparr>"

definition R2FileReader_stat :: "world \<Rightarrow> R2FileReader \<Rightarrow> (thrown + R2Stats) \<times> world" where
  "R2FileReader_stat w this =
     (case send_HeadObject w (p_client this) (bucket_and_key this) of
        (Inr response, w') \<Rightarrow>
          (Inr (new_S3Stat w' (head_ContentType response) (head_ETag response)
                  (head_ContentLength response) (head_LastModified response)), w')
      | (Inl e, w') \<Rightarrow> (Inl e, happened (Console_log e) w'))"

section \<open>Listing: \<open>list\<close> of lib/list.ts and its normalisation\<close>

text \<open>
  Modelled from the spec: the declarations of \<open>R2ListObjectsOptions\<close>,
  \<open>R2ListObjectsResponse\<close> and \<open>R2ListObjectContent\<close> (lib/types.ts) are not part of the
  sources at hand; the records hold the members the code reads and writes. The members of
  the response are prefixed \<open>res_\<close>, those of a content entry \<open>obj_\<close>.
\<close>

record R2ListObjectsOptions =
  prefix :: "string option"
  continuationToken :: "string option"
  delimiter :: "string option"
  maxKeys :: "int option"
  fetchOwner :: "bool option"
  encodingType :: "string option"
  startAfter :: "string option"

text \<open>\<open>input?.key\<close> on an object whose members are only read.\<close>

fun opt_get :: "('r \<Rightarrow> 'a option) \<Rightarrow> 'r option \<Rightarrow> 'a option" where
  "opt_get key None = None"
| "opt_get key (Some obj) = key obj"

text \<open>The string \<open>new Date(d).toISOString()\<close>, named by the date it is the string of.\<close>

datatype iso_string = ISO_8601 date

definition toISOString :: "date \<Rightarrow> iso_string" where
  "toISOString d = ISO_8601 d"

record list_owner =
  owner_id :: "string member"
  owner_displayName :: "string member"

record list_restore_status =
  isRestoreInProgress :: "bool member"
  restoreExpiryDate :: "iso_string member"

record R2ListObjectContent =
  obj_eTag :: "string member"
  obj_key :: "string member"
  obj_checksumAlgorithm :: "string member"
  obj_checksumType :: "string member"
  obj_lastModified :: "iso_string member"
  obj_owner :: "list_owner member"
  obj_restoreStatus :: "list_restore_status member"
  obj_size :: "int member"
  obj_storageClass :: "string member"

record list_common_prefix =
  cp_prefix :: "string member"

record R2ListObjectsResponse =
  res_name :: "string member"
  res_commonPrefixes :: "list_common_prefix list member"
  res_delimiter :: "string member"
  res_continuationToken :: "string member"
  res_isTruncated :: "bool member"
  res_encodingType :: "string member"
  res_startAfter :: "string member"
  res_maxKeys :: "int member"
  res_keyCount :: "int member"
  res_prefix :: "string member"
  res_nextContinuationToken :: "string member"
  res_contents :: "R2ListObjectContent list member"

text \<open>\<open>if (v) obj.key = v\<close> for a string, and \<open>if (v !== undefined) obj.key = v\<close>.\<close>

definition set_if_truthy :: "string option \<Rightarrow> string member" where
  "set_if_truthy v = (if truthy v then Present v else Absent)"

fun set_if_defined :: "'a option \<Rightarrow> 'a member" where
  "set_if_defined None = Absent"
| "set_if_defined (Some v) = Present (Some v)"

text \<open>
  The function mapped over \<open>response.Contents\<close>. A \<open>Date\<close> is an object and so truthy: in
  \<open>c.LastModified || Date.now()\<close> the clock is never read, and the test of
  \<open>RestoreExpiryDate\<close> is one for \<open>undefined\<close>.
\<close>

definition normalize_content :: "raw_object \<Rightarrow> R2ListObjectContent" where
  "normalize_content c =
     \<lparr> obj_eTag = Present (Some (nullish (raw_ETag c) [])),
       obj_key = Present (Some (nullish (raw_Key c) [])),
       obj_checksumAlgorithm =
         (case raw_ChecksumAlgorithm c of
            None \<Rightarrow> Absent
          | Some [] \<Rightarrow> Absent
          | Some (a # rest) \<Rightarrow> set_if_truthy (Some a)),
       obj_checksumType = set_if_truthy (raw_ChecksumType c),
       obj_lastModified =
         (case raw_LastModified c of
            None \<Rightarrow> Absent
          | Some d \<Rightarrow> Present (Some (toISOString d))),
       obj_owner =
         (case raw_Owner c of
            None \<Rightarrow> Absent
          | Some ow \<Rightarrow>
              Present (Some \<lparr> owner_id = Present (raw_ID ow),
                               owner_displayName = Present (raw_DisplayName ow) \<rparr>)),
       obj_restoreStatus =
         (case raw_RestoreStatus c of
            None \<Rightarrow> Absent
          | Some rs \<Rightarrow>
              Present (Some
                \<lparr> isRestoreInProgress = Present (raw_IsRestoreInProgress rs),
                  restoreExpiryDate =
                    Present (case raw_RestoreExpiryDate rs of
                               Some d \<Rightarrow> Some (toISOString d)
                             | None \<Rightarrow> None) \<rparr>)),
       obj_size = set_if_defined (raw_Size c),
       obj_storageClass = set_if_defined (raw_StorageClass c) \<rparr>"

text \<open>
  The mapping of the raw response into \<open>listObject\<close>. lib/list.ts and the static
  \<open>Client.list\<close> hold the same statements, word for word.
\<close>

definition normalize_response :: "ListObjectsV2Output \<Rightarrow> R2ListObjectsResponse" where
  "normalize_response response =
     \<lparr> res_name = set_if_truthy (raw_Name response),
       res_commonPrefixes =
         (case raw_CommonPrefixes response of
            None \<Rightarrow> Absent
          | Some ps \<Rightarrow>
              Present (Some (map (\<lambda>p. \<lparr> cp_prefix = Present (Some (nullish (raw_cp_Prefix p) [])) \<rparr>) ps))),
       res_delimiter = set_if_truthy (raw_Delimiter response),
       res_continuationToken = set_if_truthy (raw_ContinuationToken response),
       res_isTruncated = set_if_defined (raw_IsTruncated response),
       res_encodingType = set_if_truthy (raw_EncodingType response),
       res_startAfter = set_if_truthy (raw_StartAfter response),
       res_maxKeys = set_if_defined (raw_MaxKeys response),
       res_keyCount = set_if_defined (raw_KeyCount response),
       res_prefix = set_if_truthy (raw_Prefix response),
       res_nextContinuationToken = set_if_truthy (raw_NextContinuationToken response),
       res_contents =
         (case raw_Contents response of
            None \<Rightarrow> Absent
          | Some cs \<Rightarrow> Present (Some (map normalize_content cs))) \<rparr>"

definition list ::
  "process_env \<Rightarrow> world \<Rightarrow> R2ListObjectsOptions option \<Rightarrow> R2Options option
     \<Rightarrow> (thrown + R2ListObjectsResponse) \<times> world" where
  "list env w input opts =
     (case send_ListObjectsV2 w (createClient env opts)
             \<lparr> Bucket = opt_rd bucket opts,
               Prefix = opt_get prefix input,
               ContinuationToken = opt_get continuationToken input,
               Delimiter = opt_get delimiter input,
               MaxKeys = opt_get maxKeys input,
               FetchOwner = opt_get fetchOwner input,
               EncodingType = opt_get encodingType input,
               StartAfter = opt_get startAfter input \<rparr> of
        (Inl error, w') \<Rightarrow> (Inl error, w')
      | (Inr response, w') \<Rightarrow> (Inr (normalize_response response), w'))"

section \<open>The client facade: the other operations of \<open>Client\<close>\<close>

definition Client_list_static ::
  "process_env \<Rightarrow> world \<Rightarrow> R2ListObjectsOptions option \<Rightarrow> R2Options option
     \<Rightarrow> (thrown + R2ListObjectsResponse) \<times> world" where
  "Client_list_static env w input opts =
     (case send_ListObjectsV2 w (createClient env opts)
             \<lparr> Bucket = opt_rd bucket opts,
               Prefix = None, ContinuationToken = None, Delimiter = None, MaxKeys = None,
               FetchOwner = None, EncodingType = None, StartAfter = None \<rparr> of
        (Inl error, w') \<Rightarrow> (Inl error, w')
      | (Inr response, w') \<Rightarrow> (Inr (normalize_response response), w'))"

definition Client_list ::
  "process_env \<Rightarrow> world \<Rightarrow> Client \<Rightarrow> R2ListObjectsOptions option \<Rightarrow> R2Options option
     \<Rightarrow> (thrown + R2ListObjectsResponse) \<times> world" where
  "Client_list env w this input opts =
     Client_list_static env w input (Some (spread_options (c_options this) opts))"

definition Client_write ::
  "process_env \<Rightarrow> world \<Rightarrow> Client \<Rightarrow> string \<Rightarrow> payload \<Rightarrow> R2Options option
     \<Rightarrow> (thrown + nat) \<times> world" where
  "Client_write env w this path data opts =
     R2FileReader_write w
       (Client_file env this path (Some (spread_options (c_options this) opts))) data None"

definition Client_write_static ::
  "process_env \<Rightarrow> world \<Rightarrow> string \<Rightarrow> payload \<Rightarrow> R2Options option \<Rightarrow> (thrown + nat) \<times> world" where
  "Client_write_static env w path data opts =
     R2FileReader_write w (Client_file_static env path opts) data None"

definition Client_presign ::
  "process_env \<Rightarrow> world \<Rightarrow> Client \<Rightarrow> string \<Rightarrow> R2FilePresignOptions option
     \<Rightarrow> (thrown + string) \<times> world" where
  "Client_presign env w this path opts =
     R2FileReader_presign w (Client_file env this path None) opts"

definition Client_presign_static ::
  "process_env \<Rightarrow> world \<Rightarrow> string \<Rightarrow> R2FilePresignOptions option \<Rightarrow> (thrown + string) \<times> world" where
  "Client_presign_static env w path opts =
     R2FileReader_presign w
       (Client_file_static env path (map_option R2Options.truncate opts)) opts"

definition Client_delete ::
  "process_env \<Rightarrow> world \<Rightarrow> Client \<Rightarrow> string \<Rightarrow> R2Options option \<Rightarrow> (thrown + unit) \<times> world" where
  "Client_delete env w this path opts = R2FileReader_delete w (Client_file env this path opts)"

definition Client_delete_static ::
  "process_env \<Rightarrow> world \<Rightarrow> string \<Rightarrow> R2Options option \<Rightarrow> (thrown + unit) \<times> world" where
  "Client_delete_static env w path opts =
     R2FileReader_delete w (Client_file_static env path opts)"

definition Client_exists ::
  "process_env \<Rightarrow> world \<Rightarrow> Client \<Rightarrow> string \<Rightarrow> R2Options option \<Rightarrow> (thrown + bool) \<times> world" where
  "Client_exists env w this path opts = R2FileReader_exists w (Client_file env this path opts)"

definition Client_exists_static ::
  "process_env \<Rightarrow> world \<Rightarrow> string \<Rightarrow> R2Options option \<Rightarrow> (thrown + bool) \<times> world" where
  "Client_exists_static env w path opts =
     R2FileReader_exists w (Client_file_static env path opts)"

definition Client_stat ::
  "process_env \<Rightarrow> world \<Rightarrow> Client \<Rightarrow> string \<Rightarrow> R2Options option \<Rightarrow> (thrown + R2Stats) \<times> world" where
  "Client_stat env w this path opts =
     R2FileReader_stat w
       (Client_file env this path (Some (spread_options (c_options this) opts)))"

definition Client_stat_static ::
  "process_env \<Rightarrow> world \<Rightarrow> string \<Rightarrow> R2Options option \<Rightarrow> (thrown + R2Stats) \<times> world" where
  "Client_stat_static env w path opts = R2FileReader_stat w (Client_file_static env path opts)"

definition Client_size ::
  "process_env \<Rightarrow> world \<Rightarrow> Client \<Rightarrow> string \<Rightarrow> R2Options option \<Rightarrow> (thrown + int) \<times> world" where
  "Client_size env w this path opts =
     (case R2FileReader_stat w (Client_file env this path opts) of
        (Inl error, w') \<Rightarrow> (Inl error, w')
      | (Inr stat, w') \<Rightarrow> (Inr (stat_size stat), w'))"

section \<open>\<open>BlobClient\<close>\<close>

text \<open>\<open>BlobOptions\<close> and \<open>PresignOptions\<close> of types.ts, with the members the client reads.\<close>

record BlobOptions =
  blob_bucket :: string
  blob_accessKeyId :: string
  blob_secretAccessKey :: string
  blob_endpoint :: "string option"

record PresignOptions =
  po_expiresIn :: "int option"
  po_method :: "string option"
  po_type :: "string option"

record BlobClient =
  b_client :: S3Client
  b_options :: BlobOptions

definition new_BlobClient :: "BlobOptions \<Rightarrow> BlobClient" where
  "new_BlobClient opts =
     \<lparr> b_client =
         \<lparr> cfg_endpoint = blob_endpoint opts, cfg_region = ''auto'', forcePathStyle = True,
           cfg_credentials =
             \<lparr> cred_accessKeyId = blob_accessKeyId opts,
               cred_secretAccessKey = blob_secretAccessKey opts,
               cred_sessionToken = None \<rparr> \<rparr>,
       b_options = opts \<rparr>"

definition blob_key :: "BlobClient \<Rightarrow> string \<Rightarrow> object_input" where
  "blob_key this path = \<lparr> Bucket = Some (blob_bucket (b_options this)), Key = path \<rparr>"

definition blob_get :: "BlobClient \<Rightarrow> string \<Rightarrow> GetObjectInput" where
  "blob_get this path =
     \<lparr> Bucket = Some (blob_bucket (b_options this)), Key = path, Range' = None \<rparr>"

definition BlobClient_presigned ::
  "world \<Rightarrow> BlobClient \<Rightarrow> string \<Rightarrow> PresignOptions option \<Rightarrow> (thrown + string) \<times> world" where
  "BlobClient_presigned w this path opts =
     (let method = nullish (opt_get po_method opts) ''GET'';
          cmd =
            (if method = ''GET'' then GetObjectCommand (blob_get this path)
             else if method = ''PUT'' then
               PutObjectCommand
                 \<lparr> Bucket = Some (blob_bucket (b_options this)), Key = path, Body = None,
                   ContentType = None, ACL = None, StorageClass = None \<rparr>
             else if method = ''DELETE'' then DeleteObjectCommand (blob_key this path)
             else if method = ''HEAD'' then HeadObjectCommand (blob_key this path)
             else GetObjectCommand (blob_get this path));
          expires = nullish (opt_get po_expiresIn opts) 3600
      in getSignedUrl w (b_client this) cmd expires)"

definition BlobClient_exists :: "world \<Rightarrow> BlobClient \<Rightarrow> string \<Rightarrow> (thrown + bool) \<times> world" where
  "BlobClient_exists w this path =
     (case send_HeadObject w (b_client this) (blob_key this path) of
        (Inr response, w') \<Rightarrow> (Inr True, w')
      | (Inl error, w') \<Rightarrow>
          (case error of
             Error nm msg \<Rightarrow>
               if nm = ''NotFound'' \<or> nm = ''NoSuchKey'' then (Inr False, w')
               else (Inl error, w')
           | Thrown_value v \<Rightarrow> (Inl error, w')))"

definition BlobClient_size :: "world \<Rightarrow> BlobClient \<Rightarrow> string \<Rightarrow> (thrown + int) \<times> world" where
  "BlobClient_size w this path =
     (case send_HeadObject w (b_client this) (blob_key this path) of
        (Inl error, w') \<Rightarrow> (Inl error, w')
      | (Inr response, w') \<Rightarrow> (Inr (nullish (head_ContentLength response) 0), w'))"

definition BlobClient_delete :: "world \<Rightarrow> BlobClient \<Rightarrow> string \<Rightarrow> (thrown + unit) \<times> world" where
  "BlobClient_delete w this path =
     (case send_DeleteObject w (b_client this) (blob_key this path) of
        (Inl error, w') \<Rightarrow> (Inl error, w')
      | (Inr response, w') \<Rightarrow> (Inr (), w'))"

section \<open>Reading the history, and concrete worlds to run the operations in\<close>

text \<open>The expiries of the URLs signed so far, oldest first.\<close>

fun expiries :: "event list \<Rightarrow> int list" where
  "expiries [] = []"
| "expiries (Signed cl cmd n # evs) = n # expiries evs"
| "expiries (ev # evs) = expiries evs"

text \<open>The commands of the URLs signed so far, oldest first.\<close>

fun signed :: "event list \<Rightarrow> command list" where
  "signed [] = []"
| "signed (Signed cl cmd n # evs) = cmd # signed evs"
| "signed (ev # evs) = signed evs"

text \<open>The errors \<open>exists()\<close> answers with false: an \<open>Error\<close> named \<open>NotFound\<close> or \<open>NoSuchKey\<close>.\<close>

fun is_not_found :: "thrown \<Rightarrow> bool" where
  "is_not_found (Error nm msg) = (nm = ''NotFound'' \<or> nm = ''NoSuchKey'')"
| "is_not_found (Thrown_value v) = False"

definition no_listing :: ListObjectsV2Output where
  "no_listing =
     \<lparr> raw_Name = None, raw_CommonPrefixes = None, raw_Delimiter = None,
       raw_ContinuationToken = None, raw_IsTruncated = None, raw_EncodingType = None,
       raw_StartAfter = None, raw_MaxKeys = None, raw_KeyCount = None, raw_Prefix = None,
       raw_NextContinuationToken = None, raw_Contents = None \<rparr>"

text \<open>
  A backend that holds no object: GET and HEAD fail as S3 does, PUT and DELETE succeed,
  a listing has no member, and every URL signs to the same string.
\<close>

definition empty_world :: world where
  "empty_world =
     \<lparr> on_GetObject = (\<lambda>h cl i. Inl (Error ''NoSuchKey'' ''The specified key does not exist.'')),
       on_HeadObject = (\<lambda>h cl i. Inl (Error ''NotFound'' ''UnknownError'')),
       on_PutObject = (\<lambda>h cl i. Inr ()),
       on_DeleteObject = (\<lambda>h cl i. Inr ()),
       on_ListObjectsV2 = (\<lambda>h cl i. Inr no_listing),
       on_getSignedUrl = (\<lambda>h cl cmd n. Inr ''https://signed.example''),
       clock = 0,
       history = [] \<rparr>"

text \<open>A backend where every GET answers with the body \<open>hello\<close>, in two chunks.\<close>

definition hello_body :: sdk_body where
  "hello_body =
     \<lparr> transformToWebStream = \<lparr> ws_chunks = [[104, 101], [108, 108, 111]], ws_failure = None \<rparr>,
       transformToByteArray =
         Inr \<lparr> buffer = [104, 101, 108, 108, 111], byteOffset = 0, byteLength = 5,
               is_shared = False \<rparr>,
       transformToString = Inr ''hello'' \<rparr>"

definition hello_world :: world where
  "hello_world = empty_world\<lparr> on_GetObject := (\<lambda>h cl i. Inr \<lparr> get_Body = Some hello_body \<rparr>) \<rparr>"

text \<open>A backend that refuses every command, and the presigner too, with the given value.\<close>

definition failing_world :: "thrown \<Rightarrow> world" where
  "failing_world e =
     \<lparr> on_GetObject = (\<lambda>h cl i. Inl e),
       on_HeadObject = (\<lambda>h cl i. Inl e),
       on_PutObject = (\<lambda>h cl i. Inl e),
       on_DeleteObject = (\<lambda>h cl i. Inl e),
       on_ListObjectsV2 = (\<lambda>h cl i. Inl e),
       on_getSignedUrl = (\<lambda>h cl cmd n. Inl e),
       clock = 0,
       history = [] \<rparr>"

definition no_env :: process_env where
  "no_env = \<lparr> R2_ENDPOINT = None \<rparr>"

section \<open>Notions the properties are stated with\<close>

text \<open>
  The methods \<open>R2FileReader.presign\<close> has a case for; an absent or empty method counts,
  as it is replaced by \<open>GET\<close>.
\<close>

fun recognised :: "string option \<Rightarrow> bool" where
  "recognised None = True"
| "recognised (Some m) =
     (m = [] \<or> m = ''GET'' \<or> m = ''PUT'' \<or> m = ''DELETE'' \<or> m = ''HEAD'')"

text \<open>
  The precedence of content types as the specification words it, with ``given'' read
  as ``a non-empty string'': the override, else the payload's own type, else unset.
\<close>

definition precedence :: "string option \<Rightarrow> string option \<Rightarrow> string option" where
  "precedence override embedded =
     (if truthy override then override else if truthy embedded then embedded else None)"

text \<open>A member that is present and holds \<open>undefined\<close>; a member that is there at all.\<close>

fun holds_undefined :: "'a member \<Rightarrow> bool" where
  "holds_undefined Absent = False"
| "holds_undefined (Present None) = True"
| "holds_undefined (Present (Some v)) = False"

fun is_present :: "'a member \<Rightarrow> bool" where
  "is_present Absent = False"
| "is_present (Present v) = True"

text \<open>No member of the record itself holds \<open>undefined\<close> (nested records not looked into).\<close>

definition owner_defined :: "list_owner \<Rightarrow> bool" where
  "owner_defined ow =
     (\<not> holds_undefined (owner_id ow) \<and> \<not> holds_undefined (owner_displayName ow))"

definition restore_defined :: "list_restore_status \<Rightarrow> bool" where
  "restore_defined rs =
     (\<not> holds_undefined (isRestoreInProgress rs) \<and> \<not> holds_undefined (restoreExpiryDate rs))"

definition content_defined :: "R2ListObjectContent \<Rightarrow> bool" where
  "content_defined c =
     (\<not> holds_undefined (obj_eTag c) \<and> \<not> holds_undefined (obj_key c)
      \<and> \<not> holds_undefined (obj_checksumAlgorithm c) \<and> \<not> holds_undefined (obj_checksumType c)
      \<and> \<not> holds_undefined (obj_lastModified c) \<and> \<not> holds_undefined (obj_owner c)
      \<and> \<not> holds_undefined (obj_restoreStatus c) \<and> \<not> holds_undefined (obj_size c)
      \<and> \<not> holds_undefined (obj_storageClass c))"

definition response_defined :: "R2ListObjectsResponse \<Rightarrow> bool" where
  "response_defined r =
     (\<not> holds_undefined (res_name r) \<and> \<not> holds_undefined (res_commonPrefixes r)
      \<and> \<not> holds_undefined (res_delimiter r) \<and> \<not> holds_undefined (res_continuationToken r)
      \<and> \<not> holds_undefined (res_isTruncated r) \<and> \<not> holds_undefined (res_encodingType r)
      \<and> \<not> holds_undefined (res_startAfter r) \<and> \<not> holds_undefined (res_maxKeys r)
      \<and> \<not> holds_undefined (res_keyCount r) \<and> \<not> holds_undefined (res_prefix r)
      \<and> \<not> holds_undefined (res_nextContinuationToken r) \<and> \<not> holds_undefined (res_contents r))"

text \<open>The same, through every nested record: the sparse invariant of the data model.\<close>

definition content_sparse :: "R2ListObjectContent \<Rightarrow> bool" where
  "content_sparse c =
     (content_defined c
      \<and> (case rd (obj_owner c) of None \<Rightarrow> True | Some ow \<Rightarrow> owner_defined ow)
      \<and> (case rd (obj_restoreStatus c) of None \<Rightarrow> True | Some rs \<Rightarrow> restore_defined rs))"

definition response_sparse :: "R2ListObjectsResponse \<Rightarrow> bool" where
  "response_sparse r =
     (response_defined r
      \<and> (case rd (res_commonPrefixes r) of
            None \<Rightarrow> True
          | Some ps \<Rightarrow> list_all (\<lambda>p. \<not> holds_undefined (cp_prefix p)) ps)
      \<and> (case rd (res_contents r) of
            None \<Rightarrow> True
          | Some cs \<Rightarrow> list_all content_sparse cs))"

text \<open>
  The optional members of the response and of a content entry are there only when the
  source member was (\<open>key\<close>, \<open>eTag\<close> and a common prefix's \<open>prefix\<close> are always there).
\<close>

definition content_from_source :: "raw_object \<Rightarrow> R2ListObjectContent \<Rightarrow> bool" where
  "content_from_source raw c =
     ((is_present (obj_checksumAlgorithm c) \<longrightarrow> raw_ChecksumAlgorithm raw \<noteq> None)
      \<and> (is_present (obj_checksumType c) \<longrightarrow> raw_ChecksumType raw \<noteq> None)
      \<and> (is_present (obj_lastModified c) \<longrightarrow> raw_LastModified raw \<noteq> None)
      \<and> (is_present (obj_owner c) \<longrightarrow> raw_Owner raw \<noteq> None)
      \<and> (is_present (obj_restoreStatus c) \<longrightarrow> raw_RestoreStatus raw \<noteq> None)
      \<and> (is_present (obj_size c) \<longrightarrow> raw_Size raw \<noteq> None)
      \<and> (is_present (obj_storageClass c) \<longrightarrow> raw_StorageClass raw \<noteq> None))"

definition response_from_source :: "ListObjectsV2Output \<Rightarrow> R2ListObjectsResponse \<Rightarrow> bool" where
  "response_from_source raw r =
     ((is_present (res_name r) \<longrightarrow> raw_Name raw \<noteq> None)
      \<and> (is_present (res_commonPrefixes r) \<longrightarrow> raw_CommonPrefixes raw \<noteq> None)
      \<and> (is_present (res_delimiter r) \<longrightarrow> raw_Delimiter raw \<noteq> None)
      \<and> (is_present (res_continuationToken r) \<longrightarrow> raw_ContinuationToken raw \<noteq> None)
      \<and> (is_present (res_isTruncated r) \<longrightarrow> raw_IsTruncated raw \<noteq> None)
      \<and> (is_present (res_encodingType r) \<longrightarrow> raw_EncodingType raw \<noteq> None)
      \<and> (is_present (res_startAfter r) \<longrightarrow> raw_StartAfter raw \<noteq> None)
      \<and> (is_present (res_maxKeys r) \<longrightarrow> raw_MaxKeys raw \<noteq> None)
      \<and> (is_present (res_keyCount r) \<longrightarrow> raw_KeyCount raw \<noteq> None)
      \<and> (is_present (res_prefix r) \<longrightarrow> raw_Prefix raw \<noteq> None)
      \<and> (is_present (res_nextContinuationToken r) \<longrightarrow> raw_NextContinuationToken raw \<noteq> None)
      \<and> (is_present (res_contents r) \<longrightarrow> raw_Contents raw \<noteq> None))"

text \<open>Inputs the examples below run the operations on.\<close>

definition uploads_input :: R2ListObjectsOptions where
  "uploads_input =
     \<lparr> prefix = Some ''uploads/'', continuationToken = None, delimiter = None,
       maxKeys = Some 500, fetchOwner = Some True, encodingType = None, startAfter = None \<rparr>"

definition my_bucket :: R2Options where
  "my_bucket = empty_options\<lparr> bucket := Present (Some ''my-bucket'') \<rparr>"

definition no_presign_options :: R2FilePresignOptions where
  "no_presign_options =
     \<lparr> accessKeyId = Absent, secretAccessKey = Absent, sessionToken = Absent,
       region = Absent, bucket = Absent, endpoint = Absent, virtualHostedStyle = Absent,
       type = Absent, acl = Absent, storageClass = Absent,
       method' = Absent, expiresIn = Absent \<rparr>"

definition a_blob_client :: BlobClient where
  "a_blob_client =
     new_BlobClient \<lparr> blob_bucket = ''my-bucket'', blob_accessKeyId = ''key'',
       blob_secretAccessKey = ''secret'', blob_endpoint = None \<rparr>"

definition json_response :: payload where
  "json_response =
     Response_data \<lparr> http_arrayBuffer = Inr [123, 125],
                     http_content_type = Some ''application/json'' \<rparr>"

definition no_object :: raw_object where
  "no_object =
     \<lparr> raw_Key = None, raw_ETag = None, raw_ChecksumAlgorithm = None, raw_ChecksumType = None,
       raw_LastModified = None, raw_Owner = None, raw_RestoreStatus = None, raw_Size = None,
       raw_StorageClass = None \<rparr>"

section \<open>Properties of the arithmetic of doubles\<close>

lemma bitlen_le: "bitlen n \<le> k \<longleftrightarrow> n < 2 ^ k"
proof (induction n arbitrary: k rule: bitlen.induct)
  case (1 n)
  show ?case
  proof (cases "n = 0")
    case True
    then show ?thesis by (simp add: bitlen.simps)
  next
    case False
    show ?thesis
    proof (cases k)
      case 0
      with False show ?thesis by (simp add: bitlen.simps)
    next
      case (Suc j)
      have "bitlen n = Suc (bitlen (n div 2))" using False by (simp add: bitlen.simps)
      moreover have "bitlen (n div 2) \<le> j \<longleftrightarrow> n div 2 < 2 ^ j" using 1 False by simp
      moreover have "n div 2 < 2 ^ j \<longleftrightarrow> n < 2 ^ Suc j" by auto
      ultimately show ?thesis using Suc by simp
    qed
  qed
qed



lemma bitlen_upper: "n < 2 ^ bitlen n"
  using bitlen_le [of n "bitlen n"] by simp

lemma ulp_pos [simp]: "0 < ulp n"
  by (simp add: ulp_def)


lemma ulp_small: "n < 2 ^ 53 \<Longrightarrow> ulp n = 1"
  using bitlen_le [of n 53] by (simp add: ulp_def)

lemma round_even_small: "n < 2 ^ 53 \<Longrightarrow> round_even n = n"
  by (simp add: round_even_def ulp_small Let_def del: power_numeral)

lemma ulp_power: "ulp n = 2 ^ (bitlen n - 53)" by (simp add: ulp_def)

lemma ulp_dvd: "ulp m \<le> ulp n \<Longrightarrow> ulp m dvd ulp n"
  unfolding ulp_def by (metis le_imp_power_dvd nat_le_linear not_less numeral_2_eq_2 one_less_numeral_iff power_strict_increasing_iff semiring_norm(76) leD)


lemma quot_upper: "n div ulp n < 2 ^ 53"
proof (cases "bitlen n \<le> 53")
  case True
  then have "n < 2 ^ 53" by (simp add: bitlen_le)
  moreover from True have "ulp n = 1" by (simp add: ulp_def)
  ultimately show ?thesis by simp
next
  case False
  then have "bitlen n - 53 + 53 = bitlen n" by simp
  then have "ulp n * 2 ^ 53 = 2 ^ bitlen n"
    unfolding ulp_def by (metis power_add)
  with bitlen_upper [of n] have "n < 2 ^ 53 * ulp n" by (simp only: mult.commute)
  then show ?thesis by (rule less_mult_imp_div_less)
qed


lemma round_even_cases:
  "round_even n = (n div ulp n) * ulp n \<or> round_even n = (n div ulp n + 1) * ulp n"
  by (simp add: round_even_def Let_def)


lemma round_even_le: "round_even n \<le> (n div ulp n + 1) * ulp n"
  by (simp add: round_even_def Let_def)

lemma round_even_top: "round_even n \<le> 2 ^ 53 * ulp n"
proof -
  have "n div ulp n + 1 \<le> 2 ^ 53" using quot_upper [of n] by simp
  then have "(n div ulp n + 1) * ulp n \<le> 2 ^ 53 * ulp n" by (rule mult_le_mono1)
  with round_even_le [of n] show ?thesis by (rule order_trans)
qed




lemma round_even_fixed: "ulp v dvd v \<Longrightarrow> round_even v = v"
  by (auto simp: round_even_def Let_def)

lemma ulp_le_of_less: "v < 2 ^ 53 * ulp n \<Longrightarrow> ulp v \<le> ulp n"
proof (cases "bitlen n \<le> 53")
  case True
  assume "v < 2 ^ 53 * ulp n"
  with True have "v < 2 ^ 53" by (simp add: ulp_def)
  then have "ulp v = 1" by (rule ulp_small)
  with ulp_pos [of n] show ?thesis by linarith
next
  case False
  assume a: "v < 2 ^ 53 * ulp n"
  from False have "53 + (bitlen n - 53) = bitlen n" by simp
  then have "(2::nat) ^ 53 * ulp n = 2 ^ bitlen n" unfolding ulp_def by (metis power_add)
  with a have "v < 2 ^ bitlen n" by (simp only:)
  then have "bitlen v \<le> bitlen n" by (simp only: bitlen_le)
  then show ?thesis by (simp add: ulp_def diff_le_mono)
qed

lemma round_even_dvd: "ulp (round_even n) dvd round_even n"
proof (cases "round_even n < 2 ^ 53 * ulp n")
  case True
  then have "ulp (round_even n) dvd ulp n" by (intro ulp_dvd ulp_le_of_less)
  moreover have "ulp n dvd round_even n"
    using round_even_cases [of n] by auto
  ultimately show ?thesis by (rule dvd_trans)
next
  case False
  with round_even_top [of n] have eq: "round_even n = 2 ^ 53 * ulp n" by simp
  have "53 + (bitlen n - 53) + 1 - 53 = Suc (bitlen n - 53)" by simp
  have "round_even n = 2 ^ (53 + (bitlen n - 53))"
    unfolding eq ulp_def by (metis power_add)
  then have "round_even n < 2 ^ (54 + (bitlen n - 53))" by simp
  then have "bitlen (round_even n) \<le> 54 + (bitlen n - 53)" by (simp only: bitlen_le)
  then have "bitlen (round_even n) - 53 \<le> 53 + (bitlen n - 53)" by simp
  then have "(2::nat) ^ (bitlen (round_even n) - 53) dvd 2 ^ (53 + (bitlen n - 53))"
    by (rule le_imp_power_dvd)
  with \<open>round_even n = 2 ^ (53 + (bitlen n - 53))\<close> show ?thesis by (simp only: ulp_def)
qed

lemma round_even_idem: "round_even (round_even n) = round_even n"
  by (rule round_even_fixed) (rule round_even_dvd)

lemma bitlen_power: "bitlen (2 ^ k) = Suc k"
proof -
  have "bitlen (2 ^ k) \<le> Suc k" by (simp add: bitlen_le)
  moreover have "\<not> bitlen (2 ^ k) \<le> k" by (simp add: bitlen_le)
  ultimately show ?thesis by simp
qed

lemma round_even_power: "round_even (2 ^ k) = 2 ^ k"
proof (rule round_even_fixed)
  have "Suc k - 53 \<le> k" by simp
  then have "(2::nat) ^ (Suc k - 53) dvd 2 ^ k" by (rule le_imp_power_dvd)
  then show "ulp (2 ^ k) dvd 2 ^ k" by (simp only: ulp_def bitlen_power)
qed

lemma round_even_safe: "n \<le> 2 ^ 53 \<Longrightarrow> round_even n = n"
  using round_even_small [of n] round_even_power [of 53] by (cases "n = 2 ^ 53") simp_all

lemma round_even_zero [simp]: "round_even 0 = 0"
  by (simp add: round_even_small)


lemma nearest_idem: "nearest (nearest x) = nearest x"
proof (cases "x < 0")
  case True
  show ?thesis
  proof (cases "round_even (nat (- x)) = 0")
    case True
    with \<open>x < 0\<close> show ?thesis by (simp add: nearest_def)
  next
    case False
    with \<open>x < 0\<close> show ?thesis by (simp add: nearest_def round_even_idem)
  qed
next
  case False
  then show ?thesis by (simp add: nearest_def round_even_idem)
qed

lemma nearest_safe: "\<bar>x\<bar> \<le> 2 ^ 53 \<Longrightarrow> nearest x = x"
proof -
  assume a: "\<bar>x\<bar> \<le> 2 ^ 53"
  show ?thesis
  proof (cases "x < 0")
    case True
    with a have "nat (- x) \<le> 2 ^ 53" by (simp add: nat_le_iff)
    then have "round_even (nat (- x)) = nat (- x)" by (rule round_even_safe)
    with True show ?thesis by (simp add: nearest_def)
  next
    case False
    with a have "nat x \<le> 2 ^ 53" by (simp add: nat_le_iff)
    then have "round_even (nat x) = nat x" by (rule round_even_safe)
    with False show ?thesis by (simp add: nearest_def)
  qed
qed

lemma Infinity_pos: "0 < Infinity"
  by (simp add: Infinity_def)

lemma nat_Infinity: "nat Infinity = 2 ^ 1024"
  unfolding Infinity_def by (simp only: nat_power_eq zero_le_numeral nat_numeral)

lemma nearest_Infinity: "nearest Infinity = Infinity" "nearest (- Infinity) = - Infinity"
proof -
  have "round_even (nat Infinity) = nat Infinity"
    by (simp only: nat_Infinity round_even_power)
  with Infinity_pos show "nearest Infinity = Infinity" "nearest (- Infinity) = - Infinity"
    by (simp_all add: nearest_def)
qed

lemma safe_below_Infinity: "\<bar>x\<bar> \<le> 2 ^ 53 \<Longrightarrow> x < Infinity \<and> - Infinity < x"
proof -
  have "(2::int) ^ 53 < 2 ^ 1024" by (rule power_strict_increasing) simp_all
  then show "\<bar>x\<bar> \<le> 2 ^ 53 \<Longrightarrow> x < Infinity \<and> - Infinity < x"
    unfolding Infinity_def by linarith
qed


lemma to_double_idem: "to_double (to_double x) = to_double x"
  using Infinity_pos by (auto simp: to_double_def nearest_Infinity nearest_idem)


lemma to_double_safe: "\<bar>x\<bar> \<le> 2 ^ 53 \<Longrightarrow> to_double x = x"
  using safe_below_Infinity [of x] by (auto simp: to_double_def nearest_safe)

lemma js_add_safe: "\<bar>x\<bar> \<le> 2 ^ 53 \<Longrightarrow> \<bar>x + y\<bar> \<le> 2 ^ 53 \<Longrightarrow> js_add x y = x + y"
  using safe_below_Infinity [of x] by (simp add: js_add_def to_double_safe)


lemma js_add_double: "to_double x = x \<Longrightarrow> to_double (js_add x y) = js_add x y"
  by (simp add: js_add_def to_double_idem)






section \<open>Properties of range composition\<close>

lemmas slice_unfold =
  slice_def newRange_def has_keys_def new_R2FileReader_def existingBegin_def existingEnd_def











text \<open>
  C10. A slice that is given no content type, \<open>slice()\<close>, \<open>slice(begin)\<close> or
  \<open>slice(begin, end)\<close>, builds its options as \<open>{ ...options, type }\<close> with \<open>type\<close>
  undefined: the member \<open>type\<close> is present and holds \<open>undefined\<close>, whatever content type
  the reference had, and every other option is kept.
\<close>

theorem slice_without_type_erases_type:
  "p_options (slice env f None None None) = (p_options f)\<lparr> type := Present None \<rparr>
   \<and> p_options (slice env f (Some (Num b)) None None) = (p_options f)\<lparr> type := Present None \<rparr>
   \<and> p_options (slice env f (Some (Num b)) (Some (Num e)) None)
       = (p_options f)\<lparr> type := Present None \<rparr>
   \<and> rd (type ((p_options f)\<lparr> type := Present None \<rparr>)) = None"
  by (simp add: slice_def new_R2FileReader_def)

theorem slice_without_type_erases_type_witness:
  "rd (type (p_options (Client_file_static \<lparr>R2_ENDPOINT = None\<rparr> ''a.txt''
       (Some (empty_options\<lparr> type := Present (Some ''text/plain'') \<rparr>))))) = Some ''text/plain''
   \<and> type (p_options (slice \<lparr>R2_ENDPOINT = None\<rparr>
        (Client_file_static \<lparr>R2_ENDPOINT = None\<rparr> ''a.txt''
           (Some (empty_options\<lparr> type := Present (Some ''text/plain'') \<rparr>)))
        (Some (Num 0)) (Some (Num 4)) None)) = Present None"
  using slice_without_type_erases_type [of "\<lparr>R2_ENDPOINT = None\<rparr>"
      "Client_file_static \<lparr>R2_ENDPOINT = None\<rparr> ''a.txt''
         (Some (empty_options\<lparr> type := Present (Some ''text/plain'') \<rparr>))" 0 4]
  by (simp add: Client_file_static_def new_R2FileReader_def empty_options_def)

section \<open>Properties of the read operations\<close>

lemma slice_same_target:
  "p_client (slice env (new_R2FileReader env path opts rng) a b ct)
     = p_client (new_R2FileReader env path opts rng)
   \<and> p_bucket (slice env (new_R2FileReader env path opts rng) a b ct)
     = p_bucket (new_R2FileReader env path opts rng)
   \<and> name (slice env (new_R2FileReader env path opts rng) a b ct)
     = name (new_R2FileReader env path opts rng)"
  by (cases opts)
     (simp_all add: slice_def new_R2FileReader_def empty_options_def createClient_def
        split: prod.splits)

lemma get_input_slice:
  "get_input (slice env (new_R2FileReader env path opts rng) a b ct)
     = get_input (new_R2FileReader env path opts rng)"
  by (simp add: get_input_def slice_same_target)

lemma stream_slice:
  "R2FileReader_stream w (slice env (new_R2FileReader env path opts rng) a b ct)
     = R2FileReader_stream w (new_R2FileReader env path opts rng)"
  by (simp add: R2FileReader_stream_def get_input_slice slice_same_target)

lemma arrayBuffer_slice:
  "R2FileReader_arrayBuffer w (slice env (new_R2FileReader env path opts rng) a b ct)
     = R2FileReader_arrayBuffer w (new_R2FileReader env path opts rng)"
  by (simp add: R2FileReader_arrayBuffer_def get_input_slice slice_same_target)

lemma text_slice:
  "R2FileReader_text w (slice env (new_R2FileReader env path opts rng) a b ct)
     = R2FileReader_text w (new_R2FileReader env path opts rng)"
  by (simp add: R2FileReader_text_def get_input_slice slice_same_target)

lemma json_slice:
  "R2FileReader_json parse w (slice env (new_R2FileReader env path opts rng) a b ct)
     = R2FileReader_json parse w (new_R2FileReader env path opts rng)"
  by (simp add: R2FileReader_json_def text_slice)

lemma bytes_slice:
  "R2FileReader_bytes w (slice env (new_R2FileReader env path opts rng) a b ct)
     = R2FileReader_bytes w (new_R2FileReader env path opts rng)"
  by (simp add: R2FileReader_bytes_def get_input_slice slice_same_target)

lemma stream_sends:
  "history (snd (R2FileReader_stream w this))
     = history w @ [Sent (p_client this) (GetObjectCommand
         \<lparr> Bucket = Some (p_bucket this), Key = name this, Range' = None \<rparr>)]"
  by (simp add: R2FileReader_stream_def get_input_def send_GetObject_def happened_def
        split: sum.splits option.splits)

lemma arrayBuffer_sends:
  "history (snd (R2FileReader_arrayBuffer w this))
     = history w @ [Sent (p_client this) (GetObjectCommand
         \<lparr> Bucket = Some (p_bucket this), Key = name this, Range' = None \<rparr>)]"
  by (simp add: R2FileReader_arrayBuffer_def get_input_def send_GetObject_def happened_def
        split: sum.splits option.splits)

lemma text_sends:
  "history (snd (R2FileReader_text w this))
     = history w @ [Sent (p_client this) (GetObjectCommand
         \<lparr> Bucket = Some (p_bucket this), Key = name this, Range' = None \<rparr>)]"
  by (simp add: R2FileReader_text_def get_input_def send_GetObject_def happened_def
        split: sum.splits option.splits)

lemma json_sends:
  "history (snd (R2FileReader_json parse w this))
     = history w @ [Sent (p_client this) (GetObjectCommand
         \<lparr> Bucket = Some (p_bucket this), Key = name this, Range' = None \<rparr>)]"
  using text_sends [of w this]
  by (auto simp: R2FileReader_json_def split: sum.splits prod.splits)

lemma bytes_sends:
  "history (snd (R2FileReader_bytes w this))
     = history w @ [Sent (p_client this) (GetObjectCommand
         \<lparr> Bucket = Some (p_bucket this), Key = name this, Range' = None \<rparr>)]"
  by (simp add: R2FileReader_bytes_def get_input_def send_GetObject_def happened_def
        split: sum.splits option.splits)

text \<open>
  C9. Every read operation of a reader (\<open>stream\<close>, \<open>arrayBuffer\<close>, \<open>text\<close>, \<open>bytes\<close>, and
  \<open>json\<close> through \<open>text\<close>) sends one GET that carries the bucket and the key and no byte
  range; so, against the same backend, reading any slice of a reference gives what
  reading the reference gives: the whole object.
\<close>

theorem reads_ignore_range:
  "history (snd (R2FileReader_stream w this))
     = history w @ [Sent (p_client this) (GetObjectCommand
         \<lparr> Bucket = Some (p_bucket this), Key = name this, Range' = None \<rparr>)]
   \<and> history (snd (R2FileReader_arrayBuffer w this))
     = history w @ [Sent (p_client this) (GetObjectCommand
         \<lparr> Bucket = Some (p_bucket this), Key = name this, Range' = None \<rparr>)]
   \<and> history (snd (R2FileReader_text w this))
     = history w @ [Sent (p_client this) (GetObjectCommand
         \<lparr> Bucket = Some (p_bucket this), Key = name this, Range' = None \<rparr>)]
   \<and> history (snd (R2FileReader_bytes w this))
     = history w @ [Sent (p_client this) (GetObjectCommand
         \<lparr> Bucket = Some (p_bucket this), Key = name this, Range' = None \<rparr>)]
   \<and> history (snd (R2FileReader_json parse w this))
     = history w @ [Sent (p_client this) (GetObjectCommand
         \<lparr> Bucket = Some (p_bucket this), Key = name this, Range' = None \<rparr>)]
   \<and> R2FileReader_stream w (slice env (new_R2FileReader env path opts rng) a b ct)
     = R2FileReader_stream w (new_R2FileReader env path opts rng)
   \<and> R2FileReader_arrayBuffer w (slice env (new_R2FileReader env path opts rng) a b ct)
     = R2FileReader_arrayBuffer w (new_R2FileReader env path opts rng)
   \<and> R2FileReader_text w (slice env (new_R2FileReader env path opts rng) a b ct)
     = R2FileReader_text w (new_R2FileReader env path opts rng)
   \<and> R2FileReader_bytes w (slice env (new_R2FileReader env path opts rng) a b ct)
     = R2FileReader_bytes w (new_R2FileReader env path opts rng)
   \<and> R2FileReader_json parse w (slice env (new_R2FileReader env path opts rng) a b ct)
     = R2FileReader_json parse w (new_R2FileReader env path opts rng)"
  by (intro conjI stream_sends arrayBuffer_sends text_sends bytes_sends json_sends
        stream_slice arrayBuffer_slice text_slice bytes_slice json_slice)

text \<open>
  At an object holding \<open>hello\<close>: the first two bytes are asked for, all five are read.
\<close>

theorem reads_ignore_range_witness:
  "fst (R2FileReader_text hello_world
          (slice no_env (new_R2FileReader no_env ''greeting.txt'' None None)
             (Some (Num 0)) (Some (Num 2)) None)) = Inr ''hello''
   \<and> fst (R2FileReader_bytes hello_world
          (slice no_env (new_R2FileReader no_env ''greeting.txt'' None None)
             (Some (Num 0)) (Some (Num 2)) None)) = Inr [104, 101, 108, 108, 111]
   \<and> p_range (slice no_env (new_R2FileReader no_env ''greeting.txt'' None None)
             (Some (Num 0)) (Some (Num 2)) None)
       = Some \<lparr> range_begin = Present (Some 0), range_end = Present (Some 2) \<rparr>"
proof -
  note whole = reads_ignore_range [of hello_world
      "new_R2FileReader no_env ''greeting.txt'' None None" Inr no_env "''greeting.txt''" None None
      "Some (Num 0)" "Some (Num 2)" None]
  from whole have
    "R2FileReader_text hello_world
       (slice no_env (new_R2FileReader no_env ''greeting.txt'' None None)
          (Some (Num 0)) (Some (Num 2)) None)
     = R2FileReader_text hello_world (new_R2FileReader no_env ''greeting.txt'' None None)"
    by (elim conjE)
  then have read_text: "fst (R2FileReader_text hello_world
       (slice no_env (new_R2FileReader no_env ''greeting.txt'' None None)
          (Some (Num 0)) (Some (Num 2)) None)) = Inr ''hello''"
    by (simp add: R2FileReader_text_def hello_world_def empty_world_def send_GetObject_def
          hello_body_def)
  from whole have
    "R2FileReader_bytes hello_world
       (slice no_env (new_R2FileReader no_env ''greeting.txt'' None None)
          (Some (Num 0)) (Some (Num 2)) None)
     = R2FileReader_bytes hello_world (new_R2FileReader no_env ''greeting.txt'' None None)"
    by (elim conjE)
  then have read_bytes: "fst (R2FileReader_bytes hello_world
       (slice no_env (new_R2FileReader no_env ''greeting.txt'' None None)
          (Some (Num 0)) (Some (Num 2)) None)) = Inr [104, 101, 108, 108, 111]"
    by (simp add: R2FileReader_bytes_def hello_world_def empty_world_def send_GetObject_def
          hello_body_def view_bytes_def)
  have rng: "p_range (slice no_env (new_R2FileReader no_env ''greeting.txt'' None None)
             (Some (Num 0)) (Some (Num 2)) None)
       = Some \<lparr> range_begin = Present (Some 0), range_end = Present (Some 2) \<rparr>"
    by (simp add: slice_unfold js_add_safe)
  from read_text read_bytes rng show ?thesis
    by (intro conjI)
qed

section \<open>Properties of the existence probe and of error propagation\<close>

lemma exists_found:
  "on_HeadObject w (history w) (p_client this)
       \<lparr> Bucket = Some (p_bucket this), Key = name this \<rparr> = Inr r
   \<longrightarrow> fst (R2FileReader_exists w this) = Inr True"
  by (simp add: R2FileReader_exists_def send_HeadObject_def bucket_and_key_def)

lemma exists_not_found:
  "on_HeadObject w (history w) (p_client this)
       \<lparr> Bucket = Some (p_bucket this), Key = name this \<rparr> = Inl e \<and> is_not_found e
   \<longrightarrow> fst (R2FileReader_exists w this) = Inr False"
  by (cases e) (simp_all add: R2FileReader_exists_def send_HeadObject_def bucket_and_key_def)

lemma exists_other_error:
  "on_HeadObject w (history w) (p_client this)
       \<lparr> Bucket = Some (p_bucket this), Key = name this \<rparr> = Inl e \<and> \<not> is_not_found e
   \<longrightarrow> fst (R2FileReader_exists w this) = Inl e"
  by (cases e) (simp_all add: R2FileReader_exists_def send_HeadObject_def bucket_and_key_def)

lemma exists_sends:
  "history (snd (R2FileReader_exists w this))
     = history w @ [Sent (p_client this) (HeadObjectCommand
         \<lparr> Bucket = Some (p_bucket this), Key = name this \<rparr>)]"
  by (simp add: R2FileReader_exists_def send_HeadObject_def bucket_and_key_def happened_def
        split: sum.splits thrown.splits)

lemma blob_exists_found:
  "on_HeadObject w (history w) (b_client bc)
       \<lparr> Bucket = Some (blob_bucket (b_options bc)), Key = path \<rparr> = Inr r
   \<longrightarrow> fst (BlobClient_exists w bc path) = Inr True"
  by (simp add: BlobClient_exists_def send_HeadObject_def blob_key_def)

lemma blob_exists_not_found:
  "on_HeadObject w (history w) (b_client bc)
       \<lparr> Bucket = Some (blob_bucket (b_options bc)), Key = path \<rparr> = Inl e \<and> is_not_found e
   \<longrightarrow> fst (BlobClient_exists w bc path) = Inr False"
  by (cases e) (simp_all add: BlobClient_exists_def send_HeadObject_def blob_key_def)

lemma blob_exists_other_error:
  "on_HeadObject w (history w) (b_client bc)
       \<lparr> Bucket = Some (blob_bucket (b_options bc)), Key = path \<rparr> = Inl e \<and> \<not> is_not_found e
   \<longrightarrow> fst (BlobClient_exists w bc path) = Inl e"
  by (cases e) (simp_all add: BlobClient_exists_def send_HeadObject_def blob_key_def)

lemma stat_propagates:
  "(\<forall>i. on_HeadObject w (history w) (p_client this) i = Inl e)
   \<longrightarrow> fst (R2FileReader_stat w this) = Inl e"
  by (simp add: R2FileReader_stat_def send_HeadObject_def)

lemma delete_propagates:
  "(\<forall>i. on_DeleteObject w (history w) (p_client this) i = Inl e)
   \<longrightarrow> fst (R2FileReader_delete w this) = Inl e"
  by (simp add: R2FileReader_delete_def send_DeleteObject_def)

lemma reads_propagate:
  "(\<forall>i. on_GetObject w (history w) (p_client this) i = Inl e)
   \<longrightarrow> fst (R2FileReader_text w this) = Inl e
     \<and> fst (R2FileReader_bytes w this) = Inl e
     \<and> fst (R2FileReader_arrayBuffer w this) = Inl e
     \<and> fst (R2FileReader_json parse w this) = Inl e
     \<and> fst (R2FileReader_stream w this) = \<lparr> enqueued = [], ending = Errored e \<rparr>"
  by (simp add: R2FileReader_text_def R2FileReader_bytes_def R2FileReader_arrayBuffer_def
        R2FileReader_json_def R2FileReader_stream_def send_GetObject_def)

lemma write_propagates:
  "(\<forall>i. on_PutObject w (history w) (p_client this) i = Inl e)
     \<and> write_body data (nullish_opt (opt_rd type opts) (rd (type (p_options this)))) = Inr bc
   \<longrightarrow> fst (R2FileReader_write w this data opts) = Inl e"
  by (cases bc) (simp add: R2FileReader_write_def send_PutObject_def)

lemma list_propagates:
  "(\<forall>i. on_ListObjectsV2 w (history w) (createClient env opts) i = Inl e)
   \<longrightarrow> fst (list env w input opts) = Inl e
     \<and> fst (Client_list_static env w input opts) = Inl e"
  by (simp add: list_def Client_list_static_def send_ListObjectsV2_def)

lemma size_propagates:
  "(\<forall>i. on_HeadObject w (history w) (p_client (Client_file env c path opts)) i = Inl e)
   \<longrightarrow> fst (Client_size env w c path opts) = Inl e"
  by (simp add: Client_size_def R2FileReader_stat_def send_HeadObject_def)

lemma blob_propagates:
  "((\<forall>i. on_HeadObject w (history w) (b_client bc) i = Inl e)
      \<longrightarrow> fst (BlobClient_size w bc path) = Inl e)
   \<and> ((\<forall>i. on_DeleteObject w (history w) (b_client bc) i = Inl e)
      \<longrightarrow> fst (BlobClient_delete w bc path) = Inl e)"
  by (simp add: BlobClient_size_def BlobClient_delete_def send_HeadObject_def
        send_DeleteObject_def)

lemma facade_delegates:
  "Client_exists env w c path opts = R2FileReader_exists w (Client_file env c path opts)
   \<and> Client_exists_static env w path opts
       = R2FileReader_exists w (Client_file_static env path opts)
   \<and> Client_stat env w c path opts
       = R2FileReader_stat w
           (Client_file env c path (Some (spread_options (c_options c) opts)))
   \<and> Client_stat_static env w path opts
       = R2FileReader_stat w (Client_file_static env path opts)
   \<and> Client_delete env w c path opts = R2FileReader_delete w (Client_file env c path opts)
   \<and> Client_delete_static env w path opts
       = R2FileReader_delete w (Client_file_static env path opts)
   \<and> Client_write env w c path data opts
       = R2FileReader_write w
           (Client_file env c path (Some (spread_options (c_options c) opts))) data None
   \<and> Client_write_static env w path data opts
       = R2FileReader_write w (Client_file_static env path opts) data None"
  by (simp add: Client_exists_def Client_exists_static_def Client_stat_def
        Client_stat_static_def Client_delete_def Client_delete_static_def Client_write_def
        Client_write_static_def)

text \<open>
  C2. \<open>exists()\<close>, of a reader and of \<open>BlobClient\<close>, sends one HEAD for the bucket and key;
  it returns true when the probe succeeds, false when the probe fails with an \<open>Error\<close>
  whose name is \<open>NotFound\<close> or \<open>NoSuchKey\<close>, and fails with the very value thrown in every
  other case. No other operation turns a failure into a boolean: when the backend fails
  with \<open>e\<close> (not-found or not), \<open>stat\<close>, \<open>size\<close>, \<open>delete\<close>, the reads, \<open>write\<close> and both
  listings fail with \<open>e\<close>, and \<open>stream\<close> hands \<open>e\<close> to its consumer. The facade's
  \<open>exists\<close>, \<open>stat\<close>, \<open>delete\<close> and \<open>write\<close> are these operations on the reader of the
  path, with no handling of their own.
\<close>

theorem exists_alone_maps_not_found_to_false:
  "(on_HeadObject w (history w) (p_client this)
        \<lparr> Bucket = Some (p_bucket this), Key = name this \<rparr> = Inr r
      \<longrightarrow> fst (R2FileReader_exists w this) = Inr True)
   \<and> (on_HeadObject w (history w) (p_client this)
        \<lparr> Bucket = Some (p_bucket this), Key = name this \<rparr> = Inl e \<and> is_not_found e
      \<longrightarrow> fst (R2FileReader_exists w this) = Inr False)
   \<and> (on_HeadObject w (history w) (p_client this)
        \<lparr> Bucket = Some (p_bucket this), Key = name this \<rparr> = Inl e \<and> \<not> is_not_found e
      \<longrightarrow> fst (R2FileReader_exists w this) = Inl e)
   \<and> history (snd (R2FileReader_exists w this))
        = history w @ [Sent (p_client this) (HeadObjectCommand
            \<lparr> Bucket = Some (p_bucket this), Key = name this \<rparr>)]
   \<and> (on_HeadObject w (history w) (b_client bc)
        \<lparr> Bucket = Some (blob_bucket (b_options bc)), Key = path \<rparr> = Inr r
      \<longrightarrow> fst (BlobClient_exists w bc path) = Inr True)
   \<and> (on_HeadObject w (history w) (b_client bc)
        \<lparr> Bucket = Some (blob_bucket (b_options bc)), Key = path \<rparr> = Inl e \<and> is_not_found e
      \<longrightarrow> fst (BlobClient_exists w bc path) = Inr False)
   \<and> (on_HeadObject w (history w) (b_client bc)
        \<lparr> Bucket = Some (blob_bucket (b_options bc)), Key = path \<rparr> = Inl e \<and> \<not> is_not_found e
      \<longrightarrow> fst (BlobClient_exists w bc path) = Inl e)
   \<and> ((\<forall>i. on_HeadObject w (history w) (p_client this) i = Inl e)
      \<longrightarrow> fst (R2FileReader_stat w this) = Inl e)
   \<and> ((\<forall>i. on_HeadObject w (history w) (p_client (Client_file env c path opts)) i = Inl e)
      \<longrightarrow> fst (Client_size env w c path opts) = Inl e)
   \<and> ((\<forall>i. on_DeleteObject w (history w) (p_client this) i = Inl e)
      \<longrightarrow> fst (R2FileReader_delete w this) = Inl e)
   \<and> ((\<forall>i. on_GetObject w (history w) (p_client this) i = Inl e)
      \<longrightarrow> fst (R2FileReader_text w this) = Inl e
        \<and> fst (R2FileReader_bytes w this) = Inl e
        \<and> fst (R2FileReader_arrayBuffer w this) = Inl e
        \<and> fst (R2FileReader_json parse w this) = Inl e
        \<and> fst (R2FileReader_stream w this) = \<lparr> enqueued = [], ending = Errored e \<rparr>)
   \<and> ((\<forall>i. on_PutObject w (history w) (p_client this) i = Inl e)
        \<and> write_body data (nullish_opt (opt_rd type opts) (rd (type (p_options this)))) = Inr body
      \<longrightarrow> fst (R2FileReader_write w this data opts) = Inl e)
   \<and> ((\<forall>i. on_ListObjectsV2 w (history w) (createClient env opts) i = Inl e)
      \<longrightarrow> fst (list env w input opts) = Inl e
        \<and> fst (Client_list_static env w input opts) = Inl e)
   \<and> (((\<forall>i. on_HeadObject w (history w) (b_client bc) i = Inl e)
        \<longrightarrow> fst (BlobClient_size w bc path) = Inl e)
      \<and> ((\<forall>i. on_DeleteObject w (history w) (b_client bc) i = Inl e)
        \<longrightarrow> fst (BlobClient_delete w bc path) = Inl e))
   \<and> (Client_exists env w c path opts = R2FileReader_exists w (Client_file env c path opts)
      \<and> Client_exists_static env w path opts
          = R2FileReader_exists w (Client_file_static env path opts)
      \<and> Client_stat env w c path opts
          = R2FileReader_stat w
              (Client_file env c path (Some (spread_options (c_options c) opts)))
      \<and> Client_stat_static env w path opts
          = R2FileReader_stat w (Client_file_static env path opts)
      \<and> Client_delete env w c path opts
          = R2FileReader_delete w (Client_file env c path opts)
      \<and> Client_delete_static env w path opts
          = R2FileReader_delete w (Client_file_static env path opts)
      \<and> Client_write env w c path data opts
          = R2FileReader_write w
              (Client_file env c path (Some (spread_options (c_options c) opts))) data None
      \<and> Client_write_static env w path data opts
          = R2FileReader_write w (Client_file_static env path opts) data None)"
  by (intro conjI exists_found exists_not_found exists_other_error exists_sends
        blob_exists_found blob_exists_not_found blob_exists_other_error stat_propagates
        size_propagates delete_propagates reads_propagate write_propagates list_propagates
        blob_propagates facade_delegates)

text \<open>
  Against a backend that answers every command with \<open>NotFound\<close>: \<open>exists\<close> is false,
  every other operation fails with that error. Against one that answers with
  \<open>AccessDenied\<close>, \<open>exists\<close> fails with it too.
\<close>

theorem exists_alone_maps_not_found_to_false_witness:
  "fst (R2FileReader_exists (failing_world (Error ''NotFound'' ''UnknownError''))
          (Client_file_static no_env ''a.txt'' None)) = Inr False
   \<and> fst (BlobClient_exists (failing_world (Error ''NotFound'' ''UnknownError''))
          (new_BlobClient \<lparr> blob_bucket = ''b'', blob_accessKeyId = ''k'',
             blob_secretAccessKey = ''s'', blob_endpoint = None \<rparr>) ''a.txt'') = Inr False
   \<and> fst (R2FileReader_stat (failing_world (Error ''NotFound'' ''UnknownError''))
          (Client_file_static no_env ''a.txt'' None)) = Inl (Error ''NotFound'' ''UnknownError'')
   \<and> fst (R2FileReader_delete (failing_world (Error ''NotFound'' ''UnknownError''))
          (Client_file_static no_env ''a.txt'' None)) = Inl (Error ''NotFound'' ''UnknownError'')
   \<and> fst (R2FileReader_text (failing_world (Error ''NotFound'' ''UnknownError''))
          (Client_file_static no_env ''a.txt'' None)) = Inl (Error ''NotFound'' ''UnknownError'')
   \<and> fst (R2FileReader_write (failing_world (Error ''NotFound'' ''UnknownError''))
          (Client_file_static no_env ''a.txt'' None) (String_data ''hello'') None)
       = Inl (Error ''NotFound'' ''UnknownError'')
   \<and> fst (list no_env (failing_world (Error ''NotFound'' ''UnknownError'')) None None)
       = Inl (Error ''NotFound'' ''UnknownError'')
   \<and> fst (R2FileReader_exists (failing_world (Error ''AccessDenied'' ''Access Denied''))
          (Client_file_static no_env ''a.txt'' None))
       = Inl (Error ''AccessDenied'' ''Access Denied'')
   \<and> fst (Client_exists_static no_env (failing_world (Error ''NotFound'' ''UnknownError''))
          ''a.txt'' None) = Inr False"
proof -
  let ?nf = "Error ''NotFound'' ''UnknownError''"
  let ?ad = "Error ''AccessDenied'' ''Access Denied''"
  let ?f = "Client_file_static no_env ''a.txt'' None"
  let ?bc = "new_BlobClient \<lparr> blob_bucket = ''b'', blob_accessKeyId = ''k'',
             blob_secretAccessKey = ''s'', blob_endpoint = None \<rparr>"
  note nf = exists_alone_maps_not_found_to_false [where w = "failing_world ?nf" and this = ?f
      and e = ?nf and env = no_env and opts = None and input = None
      and data = "String_data ''hello''" and body = "(TextEncoder_encode ''hello'', None)"
      and path = "''a.txt''" and bc = ?bc and parse = Inr and c = "\<lparr> c_options = None \<rparr>"
      and r = "\<lparr> head_ContentType = None, head_ETag = None, head_ContentLength = None,
                 head_LastModified = None \<rparr>"]
  note ad = exists_alone_maps_not_found_to_false [where w = "failing_world ?ad" and this = ?f
      and e = ?ad and env = no_env and opts = None and input = None
      and data = "String_data ''hello''" and body = "(TextEncoder_encode ''hello'', None)"
      and path = "''a.txt''" and bc = ?bc and parse = Inr and c = "\<lparr> c_options = None \<rparr>"
      and r = "\<lparr> head_ContentType = None, head_ETag = None, head_ContentLength = None,
                 head_LastModified = None \<rparr>"]
  from nf ad show ?thesis
    by (simp add: failing_world_def Client_file_static_def new_R2FileReader_def
          empty_options_def)
qed

section \<open>Properties of listing\<close>

lemma list_sends:
  "history (snd (list env w input opts))
     = history w @ [Sent (createClient env opts) (ListObjectsV2Command
         \<lparr> Bucket = opt_rd bucket opts,
           Prefix = opt_get prefix input,
           ContinuationToken = opt_get continuationToken input,
           Delimiter = opt_get delimiter input,
           MaxKeys = opt_get maxKeys input,
           FetchOwner = opt_get fetchOwner input,
           EncodingType = opt_get encodingType input,
           StartAfter = opt_get startAfter input \<rparr>)]"
  by (simp add: list_def send_ListObjectsV2_def happened_def split: sum.splits)

lemma Client_list_static_sends:
  "history (snd (Client_list_static env w input opts))
     = history w @ [Sent (createClient env opts) (ListObjectsV2Command
         \<lparr> Bucket = opt_rd bucket opts,
           Prefix = None, ContinuationToken = None, Delimiter = None, MaxKeys = None,
           FetchOwner = None, EncodingType = None, StartAfter = None \<rparr>)]"
  by (simp add: Client_list_static_def send_ListObjectsV2_def happened_def split: sum.splits)

text \<open>
  C4. The one listing call is to carry every filter of the caller on each path. The
  \<open>list\<close> of lib/list.ts does (lemma \<open>list_sends\<close>); the static \<open>Client.list\<close>, and the
  instance's \<open>list\<close> that calls it, send \<open>{ Bucket }\<close> alone, whatever the input
  (lemma \<open>Client_list_static_sends\<close>). Here, at the input of the method's own
  documentation, \<open>{ prefix: "uploads/", maxKeys: 500, fetchOwner: true }\<close>: the command
  of both \<open>Client\<close> paths has no prefix, no limit and no owner flag, that of \<open>list\<close> has
  all three.
\<close>

theorem Client_list_drops_filters:
  "history (snd (Client_list_static no_env empty_world (Some uploads_input) (Some my_bucket)))
     = [Sent (createClient no_env (Some my_bucket)) (ListObjectsV2Command
         \<lparr> Bucket = Some ''my-bucket'',
           Prefix = None, ContinuationToken = None, Delimiter = None, MaxKeys = None,
           FetchOwner = None, EncodingType = None, StartAfter = None \<rparr>)]
   \<and> history (snd (Client_list no_env empty_world \<lparr> c_options = Some my_bucket \<rparr>
          (Some uploads_input) None))
     = [Sent (createClient no_env (Some my_bucket)) (ListObjectsV2Command
         \<lparr> Bucket = Some ''my-bucket'',
           Prefix = None, ContinuationToken = None, Delimiter = None, MaxKeys = None,
           FetchOwner = None, EncodingType = None, StartAfter = None \<rparr>)]
   \<and> history (snd (list no_env empty_world (Some uploads_input) (Some my_bucket)))
     = [Sent (createClient no_env (Some my_bucket)) (ListObjectsV2Command
         \<lparr> Bucket = Some ''my-bucket'',
           Prefix = Some ''uploads/'', ContinuationToken = None, Delimiter = None,
           MaxKeys = Some 500, FetchOwner = Some True, EncodingType = None,
           StartAfter = None \<rparr>)]"
  by (simp add: list_sends Client_list_static_sends Client_list_def empty_world_def
        my_bucket_def uploads_input_def spread_options_def spread_some_def empty_options_def
        createClient_def)

section \<open>Properties of presigning\<close>

lemma expiries_append: "expiries (xs @ ys) = expiries xs @ expiries ys"
  by (induction xs rule: expiries.induct) simp_all

lemma signed_append: "signed (xs @ ys) = signed xs @ signed ys"
  by (induction xs rule: signed.induct) simp_all

lemmas presign_unfold =
  R2FileReader_presign_def Let_def getSignedUrl_def happened_def signed_append expiries_append

lemma presign_unsupported:
  "opt_rd method' opts = Some m \<and> \<not> recognised (Some m)
   \<longrightarrow> R2FileReader_presign w this opts
         = (Inl (Error ''Error'' (''Unsupported method: '' @ m)), w)
     \<and> Client_presign env w c path opts
         = (Inl (Error ''Error'' (''Unsupported method: '' @ m)), w)
     \<and> Client_presign_static env w path opts
         = (Inl (Error ''Error'' (''Unsupported method: '' @ m)), w)"
  by (simp add: Client_presign_def Client_presign_static_def R2FileReader_presign_def Let_def)

lemma presign_get:
  "opt_rd method' opts = None \<or> opt_rd method' opts = Some []
     \<or> opt_rd method' opts = Some ''GET''
   \<longrightarrow> signed (history (snd (R2FileReader_presign w this opts)))
       = signed (history w) @ [GetObjectCommand
           \<lparr> Bucket = Some (p_bucket this), Key = name this, Range' = None \<rparr>]"
  by (auto simp: presign_unfold get_input_def)

lemma presign_head:
  "opt_rd method' opts = Some ''HEAD''
   \<longrightarrow> signed (history (snd (R2FileReader_presign w this opts)))
       = signed (history w) @ [HeadObjectCommand
           \<lparr> Bucket = Some (p_bucket this), Key = name this \<rparr>]"
  by (simp add: presign_unfold bucket_and_key_def)

lemma presign_put:
  "opt_rd method' opts = Some ''PUT''
   \<longrightarrow> signed (history (snd (R2FileReader_presign w this opts)))
       = signed (history w) @ [PutObjectCommand
           \<lparr> Bucket = Some (p_bucket this), Key = name this, Body = None,
             ContentType = nullish_opt (opt_rd type opts) (rd (type (p_options this))),
             ACL = opt_rd acl opts, StorageClass = None \<rparr>]"
  by (simp add: presign_unfold)

lemma presign_delete:
  "opt_rd method' opts = Some ''DELETE''
   \<longrightarrow> signed (history (snd (R2FileReader_presign w this opts)))
       = signed (history w) @ [DeleteObjectCommand
           \<lparr> Bucket = Some (p_bucket this), Key = name this \<rparr>]"
  by (simp add: presign_unfold bucket_and_key_def)

lemma blob_presigned_falls_back:
  "opt_get po_method popts = None
     \<or> (opt_get po_method popts = Some m \<and> m \<noteq> ''PUT'' \<and> m \<noteq> ''DELETE'' \<and> m \<noteq> ''HEAD'')
   \<longrightarrow> signed (history (snd (BlobClient_presigned w bc path popts)))
       = signed (history w) @ [GetObjectCommand
           \<lparr> Bucket = Some (blob_bucket (b_options bc)), Key = path, Range' = None \<rparr>]"
  by (auto simp: BlobClient_presigned_def presign_unfold blob_get_def)

lemma blob_presigned_put:
  "opt_get po_method popts = Some ''PUT''
   \<longrightarrow> signed (history (snd (BlobClient_presigned w bc path popts)))
       = signed (history w) @ [PutObjectCommand
           \<lparr> Bucket = Some (blob_bucket (b_options bc)), Key = path, Body = None,
             ContentType = None, ACL = None, StorageClass = None \<rparr>]"
  by (simp add: BlobClient_presigned_def presign_unfold)

lemma blob_presigned_head:
  "opt_get po_method popts = Some ''HEAD''
   \<longrightarrow> signed (history (snd (BlobClient_presigned w bc path popts)))
       = signed (history w) @ [HeadObjectCommand
           \<lparr> Bucket = Some (blob_bucket (b_options bc)), Key = path \<rparr>]"
  by (simp add: BlobClient_presigned_def presign_unfold blob_key_def)

lemma blob_presigned_delete:
  "opt_get po_method popts = Some ''DELETE''
   \<longrightarrow> signed (history (snd (BlobClient_presigned w bc path popts)))
       = signed (history w) @ [DeleteObjectCommand
           \<lparr> Bucket = Some (blob_bucket (b_options bc)), Key = path \<rparr>]"
  by (simp add: BlobClient_presigned_def presign_unfold blob_key_def)

text \<open>
  C5, as stated: on every presign path a method other than GET, HEAD, PUT and DELETE
  fails with an UnsupportedOperationError. It fails on the path of
  \<open>BlobClient.presigned\<close>, whose \<open>default\<close> case signs a GET: with the method \<open>POST\<close> (a
  member of its \<open>PresignOptions\<close>) the call returns a URL.
\<close>

theorem presign_unsupported_counterexample:
  "BlobClient_presigned empty_world a_blob_client ''a.txt''
     (Some \<lparr> po_expiresIn = None, po_method = Some ''POST'', po_type = None \<rparr>)
   = (Inr ''https://signed.example'',
      empty_world\<lparr> history := [Signed (b_client a_blob_client)
        (GetObjectCommand \<lparr> Bucket = Some ''my-bucket'', Key = ''a.txt'', Range' = None \<rparr>)
        3600] \<rparr>)"
  by (simp add: BlobClient_presigned_def Let_def getSignedUrl_def happened_def empty_world_def
        a_blob_client_def new_BlobClient_def blob_get_def)

text \<open>
  C5, amended. On the path of \<open>R2FileReader.presign\<close>, and of \<open>Client.presign\<close> which
  calls it, a method that is a non-empty string other than GET, HEAD, PUT and DELETE fails
  with \<open>Error("Unsupported method: ...")\<close> and signs nothing. There GET, also when the
  method is absent or empty, signs a \<open>GetObjectCommand\<close> and HEAD a \<open>HeadObjectCommand\<close> of
  bucket and key alone; PUT signs a \<open>PutObjectCommand\<close> without body, with the content type
  \<open>options.type ?? this.#options.type\<close> and the ACL; DELETE signs a
  \<open>DeleteObjectCommand\<close>. On the path of \<open>BlobClient.presigned\<close> no method fails: any
  method but PUT, DELETE and HEAD signs a \<open>GetObjectCommand\<close>, and PUT signs a
  \<open>PutObjectCommand\<close> with neither content type nor ACL.
\<close>

theorem presign_by_method:
  "(opt_rd method' opts = Some m \<and> \<not> recognised (Some m)
      \<longrightarrow> R2FileReader_presign w this opts
            = (Inl (Error ''Error'' (''Unsupported method: '' @ m)), w)
        \<and> Client_presign env w c path opts
            = (Inl (Error ''Error'' (''Unsupported method: '' @ m)), w)
        \<and> Client_presign_static env w path opts
            = (Inl (Error ''Error'' (''Unsupported method: '' @ m)), w))
   \<and> (opt_rd method' opts = None \<or> opt_rd method' opts = Some []
        \<or> opt_rd method' opts = Some ''GET''
      \<longrightarrow> signed (history (snd (R2FileReader_presign w this opts)))
          = signed (history w) @ [GetObjectCommand
              \<lparr> Bucket = Some (p_bucket this), Key = name this, Range' = None \<rparr>])
   \<and> (opt_rd method' opts = Some ''HEAD''
      \<longrightarrow> signed (history (snd (R2FileReader_presign w this opts)))
          = signed (history w) @ [HeadObjectCommand
              \<lparr> Bucket = Some (p_bucket this), Key = name this \<rparr>])
   \<and> (opt_rd method' opts = Some ''PUT''
      \<longrightarrow> signed (history (snd (R2FileReader_presign w this opts)))
          = signed (history w) @ [PutObjectCommand
              \<lparr> Bucket = Some (p_bucket this), Key = name this, Body = None,
                ContentType = nullish_opt (opt_rd type opts) (rd (type (p_options this))),
                ACL = opt_rd acl opts, StorageClass = None \<rparr>])
   \<and> (opt_rd method' opts = Some ''DELETE''
      \<longrightarrow> signed (history (snd (R2FileReader_presign w this opts)))
          = signed (history w) @ [DeleteObjectCommand
              \<lparr> Bucket = Some (p_bucket this), Key = name this \<rparr>])
   \<and> (opt_get po_method popts = None
        \<or> (opt_get po_method popts = Some m \<and> m \<noteq> ''PUT'' \<and> m \<noteq> ''DELETE'' \<and> m \<noteq> ''HEAD'')
      \<longrightarrow> signed (history (snd (BlobClient_presigned w bc path popts)))
          = signed (history w) @ [GetObjectCommand
              \<lparr> Bucket = Some (blob_bucket (b_options bc)), Key = path, Range' = None \<rparr>])
   \<and> (opt_get po_method popts = Some ''PUT''
      \<longrightarrow> signed (history (snd (BlobClient_presigned w bc path popts)))
          = signed (history w) @ [PutObjectCommand
              \<lparr> Bucket = Some (blob_bucket (b_options bc)), Key = path, Body = None,
                ContentType = None, ACL = None, StorageClass = None \<rparr>])
   \<and> (opt_get po_method popts = Some ''HEAD''
      \<longrightarrow> signed (history (snd (BlobClient_presigned w bc path popts)))
          = signed (history w) @ [HeadObjectCommand
              \<lparr> Bucket = Some (blob_bucket (b_options bc)), Key = path \<rparr>])
   \<and> (opt_get po_method popts = Some ''DELETE''
      \<longrightarrow> signed (history (snd (BlobClient_presigned w bc path popts)))
          = signed (history w) @ [DeleteObjectCommand
              \<lparr> Bucket = Some (blob_bucket (b_options bc)), Key = path \<rparr>])"
  by (intro conjI presign_unsupported presign_get presign_head presign_put presign_delete
        blob_presigned_falls_back blob_presigned_put blob_presigned_head blob_presigned_delete)

theorem presign_by_method_witness:
  "R2FileReader_presign empty_world (Client_file_static no_env ''a.txt'' None)
      (Some (no_presign_options\<lparr> method' := Present (Some ''PATCH'') \<rparr>))
     = (Inl (Error ''Error'' ''Unsupported method: PATCH''), empty_world)
   \<and> signed (history (snd (R2FileReader_presign empty_world
        (Client_file_static no_env ''a.txt'' None)
        (Some (no_presign_options\<lparr> method' := Present (Some ''PUT''),
                 type := Present (Some ''image/jpeg'') \<rparr>)))))
     = [PutObjectCommand \<lparr> Bucket = Some [], Key = ''a.txt'', Body = None,
          ContentType = Some ''image/jpeg'', ACL = None, StorageClass = None \<rparr>]
   \<and> signed (history (snd (R2FileReader_presign empty_world
        (Client_file_static no_env ''a.txt'' None) None)))
     = [GetObjectCommand \<lparr> Bucket = Some [], Key = ''a.txt'', Range' = None \<rparr>]
   \<and> signed (history (snd (BlobClient_presigned empty_world a_blob_client ''a.txt''
        (Some \<lparr> po_expiresIn = None, po_method = Some ''PATCH'', po_type = None \<rparr>))))
     = [GetObjectCommand \<lparr> Bucket = Some ''my-bucket'', Key = ''a.txt'', Range' = None \<rparr>]"
proof -
  let ?f = "Client_file_static no_env ''a.txt'' None"
  let ?c = "\<lparr> c_options = None \<rparr>"
  let ?patch = "Some (no_presign_options\<lparr> method' := Present (Some ''PATCH'') \<rparr>)"
  let ?put = "Some (no_presign_options\<lparr> method' := Present (Some ''PUT''),
                 type := Present (Some ''image/jpeg'') \<rparr>)"
  let ?bpatch = "Some \<lparr> po_expiresIn = None, po_method = Some ''PATCH'', po_type = None \<rparr>"
  note patch = presign_by_method [where opts = ?patch and m = "''PATCH''" and w = empty_world
      and this = ?f and env = no_env and c = ?c and path = "''a.txt''" and popts = ?bpatch
      and bc = a_blob_client]
  note put = presign_by_method [where opts = ?put and m = "''PUT''" and w = empty_world
      and this = ?f and env = no_env and c = ?c and path = "''a.txt''" and popts = ?bpatch
      and bc = a_blob_client]
  note get = presign_by_method [where opts = None and m = "''GET''" and w = empty_world
      and this = ?f and env = no_env and c = ?c and path = "''a.txt''" and popts = ?bpatch
      and bc = a_blob_client]
  from patch put get show ?thesis
    by (simp add: no_presign_options_def Client_file_static_def new_R2FileReader_def
          empty_options_def empty_world_def a_blob_client_def new_BlobClient_def)
qed

lemma expiry_default:
  "recognised (opt_rd method' opts) \<and> opt_rd expiresIn opts = None
   \<longrightarrow> expiries (history (snd (R2FileReader_presign w this opts)))
       = expiries (history w) @ [900]"
  by (cases "opt_rd method' opts") (auto simp: presign_unfold)

lemma expiry_zero:
  "recognised (opt_rd method' opts) \<and> opt_rd expiresIn opts = Some 0
   \<longrightarrow> expiries (history (snd (R2FileReader_presign w this opts)))
       = expiries (history w) @ [900]"
  by (cases "opt_rd method' opts") (auto simp: presign_unfold)

lemma expiry_given:
  "recognised (opt_rd method' opts) \<and> opt_rd expiresIn opts = Some n \<and> n \<noteq> 0
   \<longrightarrow> expiries (history (snd (R2FileReader_presign w this opts)))
       = expiries (history w) @ [n]"
  by (cases "opt_rd method' opts") (auto simp: presign_unfold)

lemma blob_expiry_default:
  "opt_get po_expiresIn popts = None
   \<longrightarrow> expiries (history (snd (BlobClient_presigned w bc path popts)))
       = expiries (history w) @ [3600]"
  by (simp add: BlobClient_presigned_def presign_unfold)

lemma blob_expiry_given:
  "opt_get po_expiresIn popts = Some n
   \<longrightarrow> expiries (history (snd (BlobClient_presigned w bc path popts)))
       = expiries (history w) @ [n]"
  by (simp add: BlobClient_presigned_def presign_unfold)

text \<open>
  C7, as stated: the default expiry is 900 seconds on the path of \<open>R2FileReader.presign\<close>
  and 3600 on that of \<open>BlobClient.presigned\<close>, and an \<open>expiresIn\<close> that is supplied is used
  instead. The last part fails on the first path, which reads
  \<open>options?.expiresIn || 900\<close>: a supplied \<open>expiresIn\<close> of 0 is replaced by 900.
\<close>

theorem presign_expiry_counterexample:
  "opt_rd expiresIn (Some (no_presign_options\<lparr> expiresIn := Present (Some 0) \<rparr>)) = Some 0
   \<and> expiries (history (snd (R2FileReader_presign empty_world
       (Client_file_static no_env ''a.txt'' None)
       (Some (no_presign_options\<lparr> expiresIn := Present (Some 0) \<rparr>))))) = [900]"
  by (simp add: presign_unfold no_presign_options_def empty_world_def)

text \<open>
  C7, amended. With no \<open>expiresIn\<close> the expiry is 900 seconds on the path of
  \<open>R2FileReader.presign\<close> (for a method it has a case for) and 3600 on that of
  \<open>BlobClient.presigned\<close>. An \<open>expiresIn\<close> other than 0 is used instead on both paths; an
  \<open>expiresIn\<close> of 0 is used on the path of \<open>BlobClient.presigned\<close> and replaced by 900 on
  that of \<open>R2FileReader.presign\<close>.
\<close>

theorem presign_expiry:
  "(recognised (opt_rd method' opts) \<and> opt_rd expiresIn opts = None
      \<longrightarrow> expiries (history (snd (R2FileReader_presign w this opts)))
          = expiries (history w) @ [900])
   \<and> (recognised (opt_rd method' opts) \<and> opt_rd expiresIn opts = Some n \<and> n \<noteq> 0
      \<longrightarrow> expiries (history (snd (R2FileReader_presign w this opts)))
          = expiries (history w) @ [n])
   \<and> (recognised (opt_rd method' opts) \<and> opt_rd expiresIn opts = Some 0
      \<longrightarrow> expiries (history (snd (R2FileReader_presign w this opts)))
          = expiries (history w) @ [900])
   \<and> (opt_get po_expiresIn popts = None
      \<longrightarrow> expiries (history (snd (BlobClient_presigned w bc path popts)))
          = expiries (history w) @ [3600])
   \<and> (opt_get po_expiresIn popts = Some n
      \<longrightarrow> expiries (history (snd (BlobClient_presigned w bc path popts)))
          = expiries (history w) @ [n])"
  by (intro conjI expiry_default expiry_given expiry_zero blob_expiry_default
        blob_expiry_given)

theorem presign_expiry_witness:
  "expiries (history (snd (R2FileReader_presign empty_world
       (Client_file_static no_env ''a.txt'' None) None))) = [900]
   \<and> expiries (history (snd (R2FileReader_presign empty_world
       (Client_file_static no_env ''a.txt'' None)
       (Some (no_presign_options\<lparr> expiresIn := Present (Some 60) \<rparr>))))) = [60]
   \<and> expiries (history (snd (BlobClient_presigned empty_world a_blob_client ''a.txt'' None)))
       = [3600]
   \<and> expiries (history (snd (BlobClient_presigned empty_world a_blob_client ''a.txt''
       (Some \<lparr> po_expiresIn = Some 0, po_method = None, po_type = None \<rparr>)))) = [0]"
proof -
  let ?f = "Client_file_static no_env ''a.txt'' None"
  note absent = presign_expiry [where opts = None and w = empty_world and this = ?f
      and n = 0 and popts = None and bc = a_blob_client and path = "''a.txt''"]
  note given = presign_expiry [where w = empty_world and this = ?f and n = 60
      and opts = "Some (no_presign_options\<lparr> expiresIn := Present (Some 60) \<rparr>)"
      and popts = None and bc = a_blob_client and path = "''a.txt''"]
  note zero = presign_expiry [where w = empty_world and this = ?f and n = 0
      and opts = None and bc = a_blob_client and path = "''a.txt''"
      and popts = "Some \<lparr> po_expiresIn = Some 0, po_method = None, po_type = None \<rparr>"]
  from absent given zero show ?thesis
    by (simp add: no_presign_options_def empty_world_def)
qed

section \<open>Properties of the content type that \<open>write\<close> stores\<close>

lemma precedence_or: "or_str (or_str a b) None = precedence a b"
  by (simp add: or_str_def precedence_def)

lemmas write_unfold = R2FileReader_write_def send_PutObject_def happened_def precedence_or

lemma write_request:
  "http_arrayBuffer d = Inr body
   \<longrightarrow> history (snd (R2FileReader_write w this (Request_data d) opts))
       = history w @ [Sent (p_client this) (PutObjectCommand
           \<lparr> Bucket = Some (p_bucket this), Key = name this, Body = Some body,
             ContentType =
               precedence (nullish_opt (opt_rd type opts) (rd (type (p_options this))))
                 (http_content_type d),
             ACL = opt_rd acl opts, StorageClass = opt_rd storageClass opts \<rparr>)]"
  by (simp add: write_unfold split: sum.splits)

lemma write_response:
  "http_arrayBuffer d = Inr body
   \<longrightarrow> history (snd (R2FileReader_write w this (Response_data d) opts))
       = history w @ [Sent (p_client this) (PutObjectCommand
           \<lparr> Bucket = Some (p_bucket this), Key = name this, Body = Some body,
             ContentType =
               precedence (nullish_opt (opt_rd type opts) (rd (type (p_options this))))
                 (http_content_type d),
             ACL = opt_rd acl opts, StorageClass = opt_rd storageClass opts \<rparr>)]"
  by (simp add: write_unfold split: sum.splits)

lemma write_blob:
  "blob_arrayBuffer b = Inr body
   \<longrightarrow> history (snd (R2FileReader_write w this (Blob_data b) opts))
       = history w @ [Sent (p_client this) (PutObjectCommand
           \<lparr> Bucket = Some (p_bucket this), Key = name this, Body = Some body,
             ContentType =
               precedence (nullish_opt (opt_rd type opts) (rd (type (p_options this))))
                 (Some (blob_type b)),
             ACL = opt_rd acl opts, StorageClass = opt_rd storageClass opts \<rparr>)]"
  by (simp add: write_unfold split: sum.splits)

text \<open>
  C6, as stated: for a request, a response or a blob the stored content type is the
  explicit per-call (or instance-default) override if there is one, else the payload's
  own content type, else unset. It fails for an override that is the empty string, which
  \<open>contentType || ...\<close> passes over: writing a response whose header says
  \<open>application/json\<close> with the option \<open>{ type: "" }\<close> stores \<open>application/json\<close>.
\<close>

theorem write_content_type_counterexample:
  "opt_rd type (Some (empty_options\<lparr> type := Present (Some []) \<rparr>)) = Some []
   \<and> history (snd (R2FileReader_write empty_world (Client_file_static no_env ''a.json'' None)
      json_response (Some (empty_options\<lparr> type := Present (Some []) \<rparr>))))
   = [Sent (createClient no_env None) (PutObjectCommand
        \<lparr> Bucket = Some [], Key = ''a.json'', Body = Some [123, 125],
          ContentType = Some ''application/json'', ACL = None, StorageClass = None \<rparr>)]"
  by (simp add: R2FileReader_write_def send_PutObject_def happened_def or_str_def
        json_response_def empty_world_def Client_file_static_def new_R2FileReader_def
        empty_options_def)

text \<open>
  C6, amended. For a request, a response or a blob whose body can be read, the command
  that \<open>write\<close> sends stores the content type chosen by this precedence: the override
  \<open>options?.type ?? this.#options?.type\<close> (per call, else the instance's) if it is a
  non-empty string; otherwise the payload's own content type (its \<open>content-type\<close> header,
  or the blob's \<open>type\<close>) if that is a non-empty string; otherwise none.
\<close>

theorem write_content_type_precedence:
  "(http_arrayBuffer d = Inr body
      \<longrightarrow> history (snd (R2FileReader_write w this (Request_data d) opts))
          = history w @ [Sent (p_client this) (PutObjectCommand
              \<lparr> Bucket = Some (p_bucket this), Key = name this, Body = Some body,
                ContentType =
                  precedence (nullish_opt (opt_rd type opts) (rd (type (p_options this))))
                    (http_content_type d),
                ACL = opt_rd acl opts, StorageClass = opt_rd storageClass opts \<rparr>)])
   \<and> (http_arrayBuffer d = Inr body
      \<longrightarrow> history (snd (R2FileReader_write w this (Response_data d) opts))
          = history w @ [Sent (p_client this) (PutObjectCommand
              \<lparr> Bucket = Some (p_bucket this), Key = name this, Body = Some body,
                ContentType =
                  precedence (nullish_opt (opt_rd type opts) (rd (type (p_options this))))
                    (http_content_type d),
                ACL = opt_rd acl opts, StorageClass = opt_rd storageClass opts \<rparr>)])
   \<and> (blob_arrayBuffer b = Inr body
      \<longrightarrow> history (snd (R2FileReader_write w this (Blob_data b) opts))
          = history w @ [Sent (p_client this) (PutObjectCommand
              \<lparr> Bucket = Some (p_bucket this), Key = name this, Body = Some body,
                ContentType =
                  precedence (nullish_opt (opt_rd type opts) (rd (type (p_options this))))
                    (Some (blob_type b)),
                ACL = opt_rd acl opts, StorageClass = opt_rd storageClass opts \<rparr>)])
   \<and> (truthy override \<longrightarrow> precedence override embedded = override)
   \<and> (\<not> truthy override \<and> truthy embedded \<longrightarrow> precedence override embedded = embedded)
   \<and> (\<not> truthy override \<and> \<not> truthy embedded \<longrightarrow> precedence override embedded = None)"
  by (intro conjI write_request write_response write_blob) (simp_all add: precedence_def)

text \<open>
  A response with the header \<open>content-type: application/json\<close>: written with no override
  it is stored as \<open>application/json\<close>, written with \<open>{ type: "text/plain" }\<close> as
  \<open>text/plain\<close>.
\<close>

theorem write_content_type_precedence_witness:
  "history (snd (R2FileReader_write empty_world (Client_file_static no_env ''a.json'' None)
      json_response None))
   = [Sent (createClient no_env None) (PutObjectCommand
        \<lparr> Bucket = Some [], Key = ''a.json'', Body = Some [123, 125],
          ContentType = Some ''application/json'', ACL = None, StorageClass = None \<rparr>)]
   \<and> history (snd (R2FileReader_write empty_world (Client_file_static no_env ''a.json'' None)
      json_response (Some (empty_options\<lparr> type := Present (Some ''text/plain'') \<rparr>))))
   = [Sent (createClient no_env None) (PutObjectCommand
        \<lparr> Bucket = Some [], Key = ''a.json'', Body = Some [123, 125],
          ContentType = Some ''text/plain'', ACL = None, StorageClass = None \<rparr>)]"
proof -
  let ?f = "Client_file_static no_env ''a.json'' None"
  let ?d = "\<lparr> http_arrayBuffer = Inr [123, 125],
              http_content_type = Some ''application/json'' \<rparr>"
  let ?b = "\<lparr> blob_arrayBuffer = Inr [123, 125], blob_type = ''application/json'' \<rparr>"
  note plain = write_content_type_precedence [where w = empty_world and this = ?f
      and d = ?d and b = ?b and body = "[123, 125]" and opts = None
      and override = None and embedded = "Some ''application/json''"]
  note over = write_content_type_precedence [where w = empty_world and this = ?f
      and d = ?d and b = ?b and body = "[123, 125]"
      and opts = "Some (empty_options\<lparr> type := Present (Some ''text/plain'') \<rparr>)"
      and override = "Some ''text/plain''" and embedded = "Some ''application/json''"]
  from plain over show ?thesis
    by (simp add: json_response_def empty_world_def Client_file_static_def
          new_R2FileReader_def empty_options_def precedence_def)
qed

section \<open>Properties of the normalised listing\<close>

lemma set_if_truthy_defined: "\<not> holds_undefined (set_if_truthy v)"
  by (cases v) (simp_all add: set_if_truthy_def)

lemma set_if_defined_defined: "\<not> holds_undefined (set_if_defined v)"
  by (cases v) simp_all

lemma set_if_truthy_present: "is_present (set_if_truthy v) \<Longrightarrow> v \<noteq> None"
  by (cases v) (simp_all add: set_if_truthy_def)

lemma set_if_defined_present: "is_present (set_if_defined v) \<Longrightarrow> v \<noteq> None"
  by (cases v) simp_all

lemma response_is_defined: "response_defined (normalize_response raw)"
  by (simp add: response_defined_def normalize_response_def set_if_truthy_defined
        set_if_defined_defined split: option.splits)

lemma response_is_from_source: "response_from_source raw (normalize_response raw)"
  by (auto simp: response_from_source_def normalize_response_def
        dest: set_if_truthy_present set_if_defined_present split: option.splits)

lemma content_is_defined: "content_defined (normalize_content c)"
  by (simp add: content_defined_def normalize_content_def set_if_truthy_defined
        set_if_defined_defined split: option.splits list.splits)

lemma content_is_from_source: "content_from_source c (normalize_content c)"
  by (auto simp: content_from_source_def normalize_content_def
        dest: set_if_truthy_present set_if_defined_present split: option.splits list.splits)

lemma contents_are_normalized:
  "rd (res_contents (normalize_response raw))
     = map_option (map normalize_content) (raw_Contents raw)"
  by (simp add: normalize_response_def split: option.splits)

lemma prefixes_are_defined:
  "rd (res_commonPrefixes (normalize_response raw)) = Some ps
   \<longrightarrow> list_all (\<lambda>p. is_present (cp_prefix p) \<and> \<not> holds_undefined (cp_prefix p)) ps"
  by (auto simp: normalize_response_def list_all_iff split: option.splits)

lemma owner_members:
  "raw_Owner c = Some ow
   \<longrightarrow> obj_owner (normalize_content c)
       = Present (Some \<lparr> owner_id = Present (raw_ID ow),
                          owner_displayName = Present (raw_DisplayName ow) \<rparr>)"
  by (simp add: normalize_content_def)

lemma restore_members:
  "raw_RestoreStatus c = Some rs
   \<longrightarrow> obj_restoreStatus (normalize_content c)
       = Present (Some \<lparr> isRestoreInProgress = Present (raw_IsRestoreInProgress rs),
                          restoreExpiryDate =
                            Present (map_option toISOString (raw_RestoreExpiryDate rs)) \<rparr>)"
  by (simp add: normalize_content_def split: option.splits)

lemma nothing_listed:
  "(raw_Contents raw = None \<longrightarrow> res_contents (normalize_response raw) = Absent)
   \<and> (raw_Contents raw = Some []
        \<longrightarrow> res_contents (normalize_response raw) = Present (Some []))
   \<and> (raw_CommonPrefixes raw = None
        \<longrightarrow> res_commonPrefixes (normalize_response raw) = Absent)
   \<and> (raw_CommonPrefixes raw = Some []
        \<longrightarrow> res_commonPrefixes (normalize_response raw) = Present (Some []))"
  by (simp add: normalize_response_def)

lemma listings_normalize:
  "(\<forall>i. on_ListObjectsV2 w (history w) (createClient env opts) i = Inr raw)
   \<longrightarrow> fst (list env w input opts) = Inr (normalize_response raw)
     \<and> fst (Client_list_static env w input opts) = Inr (normalize_response raw)"
  by (simp add: list_def Client_list_static_def send_ListObjectsV2_def)

lemma key_and_eTag:
  "obj_key (normalize_content c)
     = Present (Some (case raw_Key c of None \<Rightarrow> [] | Some k \<Rightarrow> k))
   \<and> obj_eTag (normalize_content c)
     = Present (Some (case raw_ETag c of None \<Rightarrow> [] | Some t \<Rightarrow> t))"
  by (cases "raw_Key c"; cases "raw_ETag c") (simp_all add: normalize_content_def)

lemma prefixes_are_normalized:
  "raw_CommonPrefixes raw = Some rps
   \<longrightarrow> res_commonPrefixes (normalize_response raw)
       = Present (Some (map
           (\<lambda>p. \<lparr> cp_prefix =
                   Present (Some (case raw_cp_Prefix p of None \<Rightarrow> [] | Some s \<Rightarrow> s)) \<rparr>)
           rps))"
proof -
  have "nullish v [] = (case v of None \<Rightarrow> [] | Some s \<Rightarrow> s)" for v :: "string option"
    by (cases v) simp_all
  then show ?thesis by (simp add: normalize_response_def)
qed

text \<open>
  C3, as stated: in the normalised response and in every record nested in it, owner and
  restoreStatus included, no member is present holding \<open>undefined\<close>. It fails inside
  \<open>owner\<close> and \<open>restoreStatus\<close>, whose object literals name both of their members whatever
  the source holds: an entry whose owner has an id and no display name is given the owner
  \<open>{ id: "owner-1", displayName: undefined }\<close>.
\<close>

theorem sparse_listing_counterexample:
  "obj_owner (normalize_content
      (no_object\<lparr> raw_Owner := Some \<lparr> raw_ID = Some ''owner-1'', raw_DisplayName = None \<rparr> \<rparr>))
     = Present (Some \<lparr> owner_id = Present (Some ''owner-1''),
                        owner_displayName = Present None \<rparr>)
   \<and> \<not> response_sparse (normalize_response
        (no_listing\<lparr> raw_Contents := Some
           [no_object\<lparr> raw_Owner :=
              Some \<lparr> raw_ID = Some ''owner-1'', raw_DisplayName = None \<rparr> \<rparr>] \<rparr>))"
  by (simp add: response_sparse_def normalize_response_def normalize_content_def
        no_listing_def no_object_def content_sparse_def owner_defined_def)

text \<open>
  C3, amended. For every raw listing response, both listings return its normalisation,
  in which: no member of the response itself and no member of a content entry itself is
  present holding \<open>undefined\<close>; an optional member of either is present only when the
  source member was; \<open>key\<close>, \<open>eTag\<close> and the \<open>prefix\<close> of a common prefix are always
  present and hold the source's string, the empty string when the source has none; a
  response without \<open>Contents\<close> or \<open>CommonPrefixes\<close> has the member omitted, one
  with an empty list has it empty. Inside \<open>owner\<close> and \<open>restoreStatus\<close>, every member is
  always present and holds what the source holds, \<open>undefined\<close> when the source has none.
\<close>

theorem listing_is_sparse_but_for_nested:
  "((\<forall>i. on_ListObjectsV2 w (history w) (createClient env opts) i = Inr raw)
      \<longrightarrow> fst (list env w input opts) = Inr (normalize_response raw)
        \<and> fst (Client_list_static env w input opts) = Inr (normalize_response raw))
   \<and> response_defined (normalize_response raw)
   \<and> response_from_source raw (normalize_response raw)
   \<and> rd (res_contents (normalize_response raw))
       = map_option (map normalize_content) (raw_Contents raw)
   \<and> content_defined (normalize_content c)
   \<and> content_from_source c (normalize_content c)
   \<and> (obj_key (normalize_content c)
        = Present (Some (case raw_Key c of None \<Rightarrow> [] | Some k \<Rightarrow> k))
      \<and> obj_eTag (normalize_content c)
        = Present (Some (case raw_ETag c of None \<Rightarrow> [] | Some t \<Rightarrow> t)))
   \<and> (raw_CommonPrefixes raw = Some rps
      \<longrightarrow> res_commonPrefixes (normalize_response raw)
          = Present (Some (map
              (\<lambda>p. \<lparr> cp_prefix =
                      Present (Some (case raw_cp_Prefix p of None \<Rightarrow> [] | Some s \<Rightarrow> s)) \<rparr>)
              rps)))
   \<and> (rd (res_commonPrefixes (normalize_response raw)) = Some ps
      \<longrightarrow> list_all (\<lambda>p. is_present (cp_prefix p) \<and> \<not> holds_undefined (cp_prefix p)) ps)
   \<and> (raw_Contents raw = None \<longrightarrow> res_contents (normalize_response raw) = Absent)
   \<and> (raw_Contents raw = Some []
        \<longrightarrow> res_contents (normalize_response raw) = Present (Some []))
   \<and> (raw_CommonPrefixes raw = None
        \<longrightarrow> res_commonPrefixes (normalize_response raw) = Absent)
   \<and> (raw_CommonPrefixes raw = Some []
        \<longrightarrow> res_commonPrefixes (normalize_response raw) = Present (Some []))
   \<and> (raw_Owner c = Some ow
      \<longrightarrow> obj_owner (normalize_content c)
          = Present (Some \<lparr> owner_id = Present (raw_ID ow),
                             owner_displayName = Present (raw_DisplayName ow) \<rparr>))
   \<and> (raw_RestoreStatus c = Some rs
      \<longrightarrow> obj_restoreStatus (normalize_content c)
          = Present (Some \<lparr> isRestoreInProgress = Present (raw_IsRestoreInProgress rs),
                             restoreExpiryDate =
                               Present (map_option toISOString (raw_RestoreExpiryDate rs)) \<rparr>))"
  by (intro conjI listings_normalize response_is_defined response_is_from_source
        contents_are_normalized content_is_defined content_is_from_source
        key_and_eTag prefixes_are_normalized prefixes_are_defined owner_members
        restore_members
        nothing_listed [THEN conjunct1]
        nothing_listed [THEN conjunct2, THEN conjunct1]
        nothing_listed [THEN conjunct2, THEN conjunct2, THEN conjunct1]
        nothing_listed [THEN conjunct2, THEN conjunct2, THEN conjunct2])

theorem listing_is_sparse_but_for_nested_witness:
  "fst (list no_env empty_world None None)
     = Inr \<lparr> res_name = Absent, res_commonPrefixes = Absent, res_delimiter = Absent,
             res_continuationToken = Absent, res_isTruncated = Absent,
             res_encodingType = Absent, res_startAfter = Absent, res_maxKeys = Absent,
             res_keyCount = Absent, res_prefix = Absent, res_nextContinuationToken = Absent,
             res_contents = Absent \<rparr>
   \<and> fst (Client_list_static no_env empty_world None None)
       = fst (list no_env empty_world None None)
   \<and> res_contents (normalize_response (no_listing\<lparr> raw_Contents := Some [] \<rparr>))
       = Present (Some [])
   \<and> obj_restoreStatus (normalize_content
        (no_object\<lparr> raw_Key := Some ''a.txt'', raw_RestoreStatus :=
           Some \<lparr> raw_IsRestoreInProgress = Some True, raw_RestoreExpiryDate = None \<rparr> \<rparr>))
       = Present (Some \<lparr> isRestoreInProgress = Present (Some True),
                          restoreExpiryDate = Present None \<rparr>)
   \<and> content_defined (normalize_content
        (no_object\<lparr> raw_Key := Some ''a.txt'', raw_RestoreStatus :=
           Some \<lparr> raw_IsRestoreInProgress = Some True, raw_RestoreExpiryDate = None \<rparr> \<rparr>))
   \<and> obj_key (normalize_content
        (no_object\<lparr> raw_Key := Some ''a.txt'', raw_RestoreStatus :=
           Some \<lparr> raw_IsRestoreInProgress = Some True, raw_RestoreExpiryDate = None \<rparr> \<rparr>))
       = Present (Some ''a.txt'')
   \<and> obj_eTag (normalize_content
        (no_object\<lparr> raw_Key := Some ''a.txt'', raw_RestoreStatus :=
           Some \<lparr> raw_IsRestoreInProgress = Some True, raw_RestoreExpiryDate = None \<rparr> \<rparr>))
       = Present (Some [])
   \<and> res_commonPrefixes (normalize_response
        (no_listing\<lparr> raw_CommonPrefixes :=
           Some [\<lparr> raw_cp_Prefix = None \<rparr>, \<lparr> raw_cp_Prefix = Some ''uploads/'' \<rparr>] \<rparr>))
       = Present (Some [\<lparr> cp_prefix = Present (Some []) \<rparr>,
                        \<lparr> cp_prefix = Present (Some ''uploads/'') \<rparr>])"
proof -
  let ?rs = "\<lparr> raw_IsRestoreInProgress = Some True, raw_RestoreExpiryDate = None \<rparr>"
  let ?c = "no_object\<lparr> raw_Key := Some ''a.txt'', raw_RestoreStatus := Some ?rs \<rparr>"
  let ?ow = "\<lparr> raw_ID = None, raw_DisplayName = None \<rparr>"
  let ?rps = "[\<lparr> raw_cp_Prefix = None \<rparr>, \<lparr> raw_cp_Prefix = Some ''uploads/'' \<rparr>]"
  note none = listing_is_sparse_but_for_nested [where w = empty_world and env = no_env
      and opts = None and input = None and raw = no_listing and c = ?c and rs = ?rs
      and ow = ?ow and ps = "[]" and rps = "[]"]
  note empty = listing_is_sparse_but_for_nested [where w = empty_world and env = no_env
      and opts = None and input = None and raw = "no_listing\<lparr> raw_Contents := Some [] \<rparr>"
      and c = ?c and rs = ?rs and ow = ?ow and ps = "[]" and rps = "[]"]
  note prefixes = listing_is_sparse_but_for_nested [where w = empty_world and env = no_env
      and opts = None and input = None
      and raw = "no_listing\<lparr> raw_CommonPrefixes := Some ?rps \<rparr>"
      and c = ?c and rs = ?rs and ow = ?ow and ps = "[]" and rps = ?rps]
  have shape: "normalize_response no_listing
     = \<lparr> res_name = Absent, res_commonPrefixes = Absent, res_delimiter = Absent,
             res_continuationToken = Absent, res_isTruncated = Absent,
             res_encodingType = Absent, res_startAfter = Absent, res_maxKeys = Absent,
             res_keyCount = Absent, res_prefix = Absent, res_nextContinuationToken = Absent,
             res_contents = Absent \<rparr>"
    by (simp add: normalize_response_def no_listing_def set_if_truthy_def)
  from none empty prefixes shape show ?thesis
    by (simp add: empty_world_def no_object_def no_listing_def)
qed

end
